theory Spec2Isabelle
  imports Main "HOL-Library.Word"
begin

section \<open>The body of an HTTP message: \<^verbatim>\<open>packages/node-fetch/src/Body.ts\<close>\<close>

text \<open>
  The class \<^verbatim>\<open>PonyfillBody\<close> classifies the value it is constructed from
  (\<^verbatim>\<open>processBodyInit\<close>), keeps a factory for the stream of that value, and offers the
  operations \<^verbatim>\<open>body\<close>, \<^verbatim>\<open>arrayBuffer\<close>, \<^verbatim>\<open>blob\<close>, \<^verbatim>\<open>formData\<close>, \<^verbatim>\<open>buffer\<close>,
  \<^verbatim>\<open>json\<close> and \<^verbatim>\<open>text\<close>. The embedding passes the object and the heap of streams
  explicitly; a promise is the value it settles to.
\<close>

subsection \<open>Bytes and strings\<close>

type_synonym byte = "8 word"
type_synonym bytes = "byte list"

text \<open>A JavaScript string is a sequence of UTF-16 code units.\<close>

type_synonym js_string = "16 word list"

definition ascii :: "string \<Rightarrow> js_string" where
  "ascii s = map of_char s"

definition is_high_surrogate :: "16 word \<Rightarrow> bool" where
  "is_high_surrogate u = (0xD800 \<le> u \<and> u \<le> 0xDBFF)"

definition is_low_surrogate :: "16 word \<Rightarrow> bool" where
  "is_low_surrogate u = (0xDC00 \<le> u \<and> u \<le> 0xDFFF)"

definition scalar_of_unit :: "16 word \<Rightarrow> nat" where
  "scalar_of_unit u =
     (if is_high_surrogate u \<or> is_low_surrogate u then 0xFFFD else unat u)"

text \<open>
  The code points of a string as the platform's UTF-8 encoder reads them: a surrogate
  pair is one code point, an unpaired surrogate is replaced by U+FFFD.
\<close>

fun code_points :: "js_string \<Rightarrow> nat list" where
  "code_points [] = []"
| "code_points [u] = [scalar_of_unit u]"
| "code_points (u # v # us) =
     (if is_high_surrogate u \<and> is_low_surrogate v
      then (0x10000 + (unat u - 0xD800) * 0x400 + (unat v - 0xDC00)) # code_points us
      else scalar_of_unit u # code_points (v # us))"

definition utf8_of_code_point :: "nat \<Rightarrow> bytes" where
  "utf8_of_code_point c =
     (if c < 0x80 then [of_nat c]
      else if c < 0x800 then [of_nat (0xC0 + c div 0x40), of_nat (0x80 + c mod 0x40)]
      else if c < 0x10000 then
        [of_nat (0xE0 + c div 0x1000), of_nat (0x80 + c div 0x40 mod 0x40),
         of_nat (0x80 + c mod 0x40)]
      else
        [of_nat (0xF0 + c div 0x40000), of_nat (0x80 + c div 0x1000 mod 0x40),
         of_nat (0x80 + c div 0x40 mod 0x40), of_nat (0x80 + c mod 0x40)])"

text \<open>\<^verbatim>\<open>Buffer.from(s)\<close> for a string \<open>s\<close>: its UTF-8 encoding.\<close>

definition utf8_encode :: "js_string \<Rightarrow> bytes" where
  "utf8_encode s = concat (map utf8_of_code_point (code_points s))"

text \<open>
  \<^verbatim>\<open>buf.toString('utf-8')\<close>: the UTF-8 decoder of the platform. A byte that cannot
  continue or start a sequence yields U+FFFD, and the byte that broke a sequence is read
  again as the start of the next one.
\<close>

record utf8_state =
  code_point :: nat
  bytes_seen :: nat
  bytes_needed :: nat
  lower_boundary :: nat
  upper_boundary :: nat

definition utf8_initial :: utf8_state where
  "utf8_initial =
     \<lparr>code_point = 0, bytes_seen = 0, bytes_needed = 0,
      lower_boundary = 0x80, upper_boundary = 0xBF\<rparr>"

definition utf8_lead :: "nat \<Rightarrow> nat list \<times> utf8_state" where
  "utf8_lead b =
     (if b \<le> 0x7F then ([b], utf8_initial)
      else if 0xC2 \<le> b \<and> b \<le> 0xDF then
        ([], utf8_initial\<lparr>bytes_needed := 1, code_point := b mod 0x20\<rparr>)
      else if 0xE0 \<le> b \<and> b \<le> 0xEF then
        ([], utf8_initial\<lparr>bytes_needed := 2, code_point := b mod 0x10,
               lower_boundary := (if b = 0xE0 then 0xA0 else 0x80),
               upper_boundary := (if b = 0xED then 0x9F else 0xBF)\<rparr>)
      else if 0xF0 \<le> b \<and> b \<le> 0xF4 then
        ([], utf8_initial\<lparr>bytes_needed := 3, code_point := b mod 0x08,
               lower_boundary := (if b = 0xF0 then 0x90 else 0x80),
               upper_boundary := (if b = 0xF4 then 0x8F else 0xBF)\<rparr>)
      else ([0xFFFD], utf8_initial))"

fun utf8_decoder :: "utf8_state \<Rightarrow> nat list \<Rightarrow> nat list" where
  "utf8_decoder st [] = (if bytes_needed st \<noteq> 0 then [0xFFFD] else [])"
| "utf8_decoder st (b # bs) =
     (if bytes_needed st = 0 then fst (utf8_lead b) @ utf8_decoder (snd (utf8_lead b)) bs
      else if b < lower_boundary st \<or> upper_boundary st < b then
        0xFFFD # fst (utf8_lead b) @ utf8_decoder (snd (utf8_lead b)) bs
      else if Suc (bytes_seen st) = bytes_needed st then
        (code_point st * 0x40 + b mod 0x40) # utf8_decoder utf8_initial bs
      else
        utf8_decoder
          (st\<lparr>lower_boundary := 0x80, upper_boundary := 0xBF,
              code_point := code_point st * 0x40 + b mod 0x40,
              bytes_seen := Suc (bytes_seen st)\<rparr>) bs)"

definition utf16_of_code_point :: "nat \<Rightarrow> js_string" where
  "utf16_of_code_point c =
     (if c < 0x10000 then [of_nat c]
      else [of_nat (0xD800 + (c - 0x10000) div 0x400),
            of_nat (0xDC00 + (c - 0x10000) mod 0x400)])"

definition utf8_decode :: "bytes \<Rightarrow> js_string" where
  "utf8_decode bs =
     concat (map utf16_of_code_point (utf8_decoder utf8_initial (map unat bs)))"

subsection \<open>Errors and promises\<close>

text \<open>
  Every \<^verbatim>\<open>throw\<close> and every \<^verbatim>\<open>reject\<close> of the source is a value. The limit errors
  carry the limit that the message of the source interpolates
  (\<^verbatim>\<open>`Field name size exceeded: ${formDataLimits?.fieldNameSize} bytes`\<close>).
\<close>

datatype error =
    UnknownBodyType
  | FieldNameSizeExceeded "nat option"
  | FieldValueSizeExceeded "nat option"
  | FieldsLimitExceeded "nat option"
  | FileSizeLimitExceeded "nat option"
  | FilesLimitExceeded "nat option"
  | PartsLimitExceeded "nat option"
  | SyntaxError
  | TypeError
  | StreamError string

text \<open>
  The outcome of calling a method and awaiting the promise it returns: the value of the
  promise, its rejection, or nothing when the promise never settles. \<open>Thrown\<close> is a call
  that throws before it returns a promise; an \<^verbatim>\<open>async\<close> method never does, \<^verbatim>\<open>formData()\<close>,
  which is not \<^verbatim>\<open>async\<close>, can.
\<close>

datatype 'a promise = Pending | Resolved 'a | Rejected error | Thrown error

subsection \<open>Values a body is constructed from\<close>

text \<open>
  The values of type \<^verbatim>\<open>BodyPonyfillInit | null\<close> by their runtime class, with the data
  the body reads from them. Streams are objects with identity: a
  \<^verbatim>\<open>PonyfillReadableStream\<close> and a Node \<^verbatim>\<open>Readable\<close> are addresses into the heap.
  A \<open>JArrayBufferView\<close> is a view on an ArrayBuffer that is no \<^verbatim>\<open>Uint8Array\<close>, with its
  \<^verbatim>\<open>byteLength\<close> and the bytes that \<^verbatim>\<open>Buffer.from\<close> copies out of it. A \<open>JBlob\<close> is
  a blob of another class than \<^verbatim>\<open>PonyfillBlob\<close>; a \<open>JIterable\<close> is an object with
  \<^verbatim>\<open>Symbol.iterator\<close> or \<^verbatim>\<open>Symbol.asyncIterator\<close> and none of the members that the
  classifier looks for before (a generator, an async generator).
  A \<open>JPonyfillBlob\<close> holds its parts and its type, a \<open>JPonyfillFile\<close> its parts, its
  name and its type.

  The classifier tests what it is given at run time, so values outside the declared type
  matter too. \<open>JPrimitive\<close> is a number, a boolean, a bigint or a symbol. \<open>JObject\<close> is an
  object of none of the classes above, given by what the classifier and the factory can
  observe of it: which of the members \<^verbatim>\<open>buffer\<close>, \<^verbatim>\<open>stream\<close>, \<^verbatim>\<open>sort\<close> and \<^verbatim>\<open>forEach\<close> it
  has (\<^verbatim>\<open>'buffer' in o\<close>), whether \<^verbatim>\<open>o[Symbol.iterator] || o[Symbol.asyncIterator]\<close> is
  truthy, its members \<^verbatim>\<open>byteLength\<close>, \<^verbatim>\<open>type\<close> and \<^verbatim>\<open>size\<close> where they are a number or a
  string, what \<^verbatim>\<open>Buffer.from(o)\<close> gives, and what the calls \<^verbatim>\<open>o.stream()\<close> and
  \<^verbatim>\<open>getStreamFromFormData(o, boundary)\<close> of the factory give: the error thrown, or the
  chunks of the stream created.
\<close>

record js_object =
  in_buffer :: bool
  in_stream :: bool
  in_sort :: bool
  in_forEach :: bool
  iterator :: bool
  byteLength :: "nat option"
  type_member :: "js_string option"
  size_member :: "nat option"
  as_buffer :: "error + bytes"
  factory_outcome :: "error + bytes list"

datatype js_value =
    Null
  | JString js_string
  | JBuffer bytes
  | JPonyfillReadableStream nat
  | JPonyfillBlob "js_value list" js_string
  | JPonyfillFile "js_value list" js_string js_string
  | JUint8Array bytes
  | JArrayBufferView nat bytes
  | JArrayBuffer bytes
  | JReadable nat
  | JBlob bytes js_string
  | JURLSearchParams "(js_string \<times> js_string) list"
  | JFormData "(js_string \<times> js_value) list"
  | JIterable "js_value list"
  | JObject js_object
  | JPrimitive

type_synonym BodyPonyfillInit = js_value

datatype BodyInitType =
  ReadableStream | Blob | FormData | ArrayBuffer | String | Readable | Buffer | Uint8Array

text \<open>
  A limits object. Each key is absent (\<open>None\<close>), present with the value \<^verbatim>\<open>undefined\<close>
  (\<open>Some None\<close>), or present with a number.
\<close>

record FormDataLimits =
  fieldNameSize :: "nat option option"
  fieldSize :: "nat option option"
  fields_max :: "nat option option"
  fileSize :: "nat option option"
  files :: "nat option option"
  parts :: "nat option option"
  headerSize :: "nat option option"

text \<open>Reading a key gives \<^verbatim>\<open>undefined\<close> when it is absent.\<close>

definition limit_value :: "nat option option \<Rightarrow> nat option" where
  "limit_value l = (case l of None \<Rightarrow> None | Some v \<Rightarrow> v)"

record PonyfillBodyOptions =
  formDataLimits :: "FormDataLimits option"

subsection \<open>Streams on the heap\<close>

text \<open>
  A Node \<^verbatim>\<open>Readable\<close>: the chunks it will emit, the error it emits after them
  instead of \<^verbatim>\<open>'end'\<close> (if any), and whether it has been read to its end already.

  Modelled from the spec: the class \<^verbatim>\<open>PonyfillReadableStream\<close> of \<^verbatim>\<open>ReadableStream.js\<close>, which
  is not among the sources. The spec describes it as a wrapper around a platform byte
  stream; the class reads the wrapped stream as its member \<^verbatim>\<open>readable\<close>. A stream object is
  an address, and \<open>streams\<close> maps it to the address of the Readable it wraps.
\<close>

record readable =
  chunks :: "js_value list"
  failure :: "error option"
  ended :: bool

record heap =
  readables :: "nat \<Rightarrow> readable option"
  streams :: "nat \<Rightarrow> nat option"
  proxies :: "nat \<Rightarrow> (nat \<times> nat) option"
  nextAddr :: nat

definition new_Readable :: "readable \<Rightarrow> heap \<Rightarrow> nat \<times> heap" where
  "new_Readable r h =
     (nextAddr h, h\<lparr>readables := (readables h)(nextAddr h \<mapsto> r), nextAddr := Suc (nextAddr h)\<rparr>)"

definition new_PonyfillReadableStream :: "nat \<Rightarrow> heap \<Rightarrow> nat \<times> heap" where
  "new_PonyfillReadableStream a h =
     (nextAddr h, h\<lparr>streams := (streams h)(nextAddr h \<mapsto> a), nextAddr := Suc (nextAddr h)\<rparr>)"

text \<open>
  \<^verbatim>\<open>new Proxy(stream.readable, handler)\<close>: a new object that looks members up in the stream
  object \<open>s\<close> and then in the Readable \<open>a\<close>.
\<close>

definition new_Proxy :: "nat \<Rightarrow> nat \<Rightarrow> heap \<Rightarrow> nat \<times> heap" where
  "new_Proxy s a h =
     (nextAddr h, h\<lparr>proxies := (proxies h)(nextAddr h \<mapsto> (s, a)), nextAddr := Suc (nextAddr h)\<rparr>)"

text \<open>
  \<^verbatim>\<open>new PonyfillReadableStream(r)\<close> for a Readable \<open>r\<close> that is created on the spot, as the
  result of a factory that does not throw.
\<close>

definition stream_over :: "readable \<Rightarrow> heap \<Rightarrow> (error + nat option) \<times> heap" where
  "stream_over r h =
     (case new_Readable r h of (a, h') \<Rightarrow>
        (case new_PonyfillReadableStream a h' of (s, h'') \<Rightarrow> (Inr (Some s), h'')))"

definition byte_stream :: "bytes list \<Rightarrow> readable" where
  "byte_stream cs = \<lparr>chunks = map JBuffer cs, failure = None, ended = False\<rparr>"

text \<open>The Readable behind a stream object: \<^verbatim>\<open>_body.readable\<close>.\<close>

definition readable_of :: "heap \<Rightarrow> nat \<Rightarrow> (nat \<times> readable) option" where
  "readable_of h s =
     (case streams h s of None \<Rightarrow> None
      | Some a \<Rightarrow> (case readables h a of None \<Rightarrow> None | Some r \<Rightarrow> Some (a, r)))"

definition mark_ended :: "nat \<Rightarrow> readable \<Rightarrow> heap \<Rightarrow> heap" where
  "mark_ended a r h = h\<lparr>readables := (readables h)(a \<mapsto> r\<lparr>ended := True\<rparr>)\<rparr>"

subsection \<open>The multipart decoder and the rest of the platform\<close>

text \<open>
  What the decoder \<^verbatim>\<open>busboy\<close> and the file streams it hands out emit while the body is
  piped into it, in the order in which the handlers run. \<open>File i name filename mimeType\<close>
  is the event \<^verbatim>\<open>'file'\<close> with the file stream \<open>i\<close>; \<open>FileLimit i\<close>, \<open>FileData i chunk\<close> and
  \<open>FileClose i truncated\<close> are the events \<^verbatim>\<open>'limit'\<close>, \<^verbatim>\<open>'data'\<close> and \<^verbatim>\<open>'close'\<close> of that
  stream, the last with the value of \<^verbatim>\<open>fileStream.truncated\<close> at that moment. The events of
  a file stream may come after events of later parts.
  The decoder is a parameter: \<open>busboy pf t lim\<close> is the error that \<^verbatim>\<open>busboy({...})\<close>
  throws for the content type \<open>t\<close> and the limits \<open>lim\<close>, or the decoder it creates, given
  by the events that are emitted when a Readable is piped into it.
\<close>

datatype bb_event =
    Field js_string js_string bool bool
  | FieldsLimit
  | File nat js_string js_string js_string
  | FileLimit nat
  | FileData nat bytes
  | FileClose nat bool
  | FilesLimit
  | PartsLimit
  | Close
  | Error error

text \<open>
  The functions of Node, of \<^verbatim>\<open>busboy\<close> and of the sibling modules that the class calls and
  whose results it only passes on. They are parameters of the model; \<open>'j\<close> is the type
  of parsed JSON values.
\<close>

record 'j platform =
  Readable_from :: "js_value \<Rightarrow> readable"
  Blob_stream :: "js_value \<Rightarrow> readable"
  getStreamFromFormData :: "(js_string \<times> js_value) list \<Rightarrow> js_string \<Rightarrow> readable"
  random_token :: js_string
  URLSearchParams_toString :: "(js_string \<times> js_string) list \<Rightarrow> js_string"
  object_toString :: "js_value \<Rightarrow> js_string"
  JSON_parse :: "js_string \<Rightarrow> 'j option"
  busboy :: "js_string \<Rightarrow> FormDataLimits \<Rightarrow> error + (readable \<Rightarrow> bb_event list)"

text \<open>
  \<^verbatim>\<open>Buffer.from(x)\<close> for the arguments the class passes: a string is encoded, a byte
  array or an ArrayBuffer gives its bytes, an object of no known class gives what it gives,
  and an object of another class (a \<^verbatim>\<open>URLSearchParams\<close>, which the classifier also types
  \<^verbatim>\<open>String\<close>) makes it throw.
\<close>

fun Buffer_from :: "js_value \<Rightarrow> error + bytes" where
  "Buffer_from (JString s) = Inr (utf8_encode s)"
| "Buffer_from (JBuffer bs) = Inr bs"
| "Buffer_from (JUint8Array bs) = Inr bs"
| "Buffer_from (JArrayBuffer bs) = Inr bs"
| "Buffer_from (JArrayBufferView n bs) = Inr bs"
| "Buffer_from (JObject ob) = as_buffer ob"
| "Buffer_from _ = Inl TypeError"

text \<open>\<^verbatim>\<open>Buffer.concat(chunks)\<close> throws unless every chunk is a byte array.\<close>

fun Buffer_concat :: "js_value list \<Rightarrow> error + bytes" where
  "Buffer_concat [] = Inr []"
| "Buffer_concat (JBuffer bs # cs) =
     (case Buffer_concat cs of Inl e \<Rightarrow> Inl e | Inr rest \<Rightarrow> Inr (bs @ rest))"
| "Buffer_concat (JUint8Array bs # cs) =
     (case Buffer_concat cs of Inl e \<Rightarrow> Inl e | Inr rest \<Rightarrow> Inr (bs @ rest))"
| "Buffer_concat (_ # cs) = Inl TypeError"

text \<open>
  The bytes behind \<^verbatim>\<open>this.bodyInit as Buffer\<close>, \<^verbatim>\<open>as Uint8Array\<close> and
  \<^verbatim>\<open>as ArrayBuffer\<close>; the class casts only where \<^verbatim>\<open>bodyType\<close> names that class.
\<close>

fun byte_content :: "js_value \<Rightarrow> bytes" where
  "byte_content (JBuffer bs) = bs"
| "byte_content (JUint8Array bs) = bs"
| "byte_content (JArrayBuffer bs) = bs"
| "byte_content _ = []"

text \<open>
  Modelled from the spec: \<^verbatim>\<open>uint8ArrayToArrayBuffer\<close> of \<^verbatim>\<open>utils.js\<close>, which is not among
  the sources. The spec has \<^verbatim>\<open>arrayBuffer()\<close> unwrap typed-array and buffer sources: the
  ArrayBuffer holds the bytes of the view.
\<close>

definition uint8ArrayToArrayBuffer :: "bytes \<Rightarrow> bytes" where
  "uint8ArrayToArrayBuffer bs = bs"

text \<open>
  Modelled from the spec: the class \<^verbatim>\<open>PonyfillBlob\<close> of \<^verbatim>\<open>Blob.js\<close>, which is not among the
  sources. The spec describes a blob as a sized, typed binary object with
  \<^verbatim>\<open>type\<close>, \<^verbatim>\<open>size\<close>, \<^verbatim>\<open>stream()\<close> and \<^verbatim>\<open>arrayBuffer()\<close>; its content is the content of
  its parts in order, a string part in UTF-8. A part of another kind has no content.
\<close>

fun blob_bytes :: "js_value \<Rightarrow> bytes option" where
  "blob_bytes (JString s) = Some (utf8_encode s)"
| "blob_bytes (JBuffer bs) = Some bs"
| "blob_bytes (JUint8Array bs) = Some bs"
| "blob_bytes (JArrayBuffer bs) = Some bs"
| "blob_bytes (JBlob bs t) = Some bs"
| "blob_bytes (JPonyfillBlob ps t) = map_option concat (those (map blob_bytes ps))"
| "blob_bytes (JPonyfillFile ps n t) = map_option concat (those (map blob_bytes ps))"
| "blob_bytes _ = None"

text \<open>
  Modelled from the spec: the members \<^verbatim>\<open>arrayBuffer()\<close>, \<^verbatim>\<open>buffer()\<close> and \<^verbatim>\<open>size\<close> of a
  blob (\<^verbatim>\<open>Blob.js\<close>): its content, twice, and the number of its bytes.
\<close>

definition Blob_arrayBuffer :: "js_value \<Rightarrow> bytes promise" where
  "Blob_arrayBuffer b =
     (case blob_bytes b of None \<Rightarrow> Rejected TypeError | Some bs \<Rightarrow> Resolved bs)"

definition Blob_buffer :: "js_value \<Rightarrow> bytes promise" where
  "Blob_buffer b =
     (case blob_bytes b of None \<Rightarrow> Rejected TypeError | Some bs \<Rightarrow> Resolved bs)"

definition Blob_size :: "js_value \<Rightarrow> nat" where
  "Blob_size b = (case blob_bytes b of None \<Rightarrow> 0 | Some bs \<Rightarrow> length bs)"

subsection \<open>The classifier \<^verbatim>\<open>processBodyInit\<close>\<close>

text \<open>
  The result of \<^verbatim>\<open>processBodyInit\<close>. The factory \<^verbatim>\<open>bodyFactory\<close> allocates its stream
  on the heap and returns the stream object, or \<^verbatim>\<open>null\<close>, or it throws.
\<close>

record ClassifiedSource =
  bodyType :: "BodyInitType option"
  contentType :: "js_string option"
  contentLength :: "nat option"
  bodyFactory :: "heap \<Rightarrow> (error + nat option) \<times> heap"

text \<open>
  One equation for each \<^verbatim>\<open>if\<close> of the source, in its order: \<^verbatim>\<open>bodyInit == null\<close>,
  \<^verbatim>\<open>typeof bodyInit === 'string'\<close>, \<^verbatim>\<open>instanceof Buffer\<close>,
  \<^verbatim>\<open>instanceof PonyfillReadableStream\<close>, \<^verbatim>\<open>instanceof PonyfillBlob\<close> (a \<^verbatim>\<open>PonyfillFile\<close>
  is one), \<^verbatim>\<open>instanceof Uint8Array\<close>, \<^verbatim>\<open>'buffer' in bodyInit\<close>, \<^verbatim>\<open>instanceof ArrayBuffer\<close>,
  \<^verbatim>\<open>instanceof Readable\<close>, \<^verbatim>\<open>'stream' in bodyInit\<close>, \<^verbatim>\<open>'sort' in bodyInit\<close>,
  \<^verbatim>\<open>'forEach' in bodyInit\<close>, the two iterator symbols, and the final \<^verbatim>\<open>throw\<close>. An object
  of a known class is decided by the first of these tests that it passes; an object of no
  known class goes through the five tests that do not ask for a class, in their order. A
  primitive that is no string fails every test before \<^verbatim>\<open>'buffer' in bodyInit\<close>, and there the
  operator \<^verbatim>\<open>in\<close> throws a \<^verbatim>\<open>TypeError\<close>.
\<close>

fun processBodyInit :: "'j platform \<Rightarrow> BodyPonyfillInit \<Rightarrow> error + ClassifiedSource" where
  "processBodyInit pf Null =
     Inr \<lparr>bodyType = None, contentType = None, contentLength = None,
          bodyFactory = (\<lambda>h. (Inr None, h))\<rparr>"
| "processBodyInit pf (JString s) =
     (let buffer = utf8_encode s in
      Inr \<lparr>bodyType = Some String,
           contentType = Some (ascii ''text/plain;charset=UTF-8''),
           contentLength = Some (length buffer),
           bodyFactory = stream_over (Readable_from pf (JBuffer buffer))\<rparr>)"
| "processBodyInit pf (JBuffer bs) =
     Inr \<lparr>bodyType = Some Buffer, contentType = None, contentLength = Some (length bs),
          bodyFactory = stream_over (Readable_from pf (JBuffer bs))\<rparr>"
| "processBodyInit pf (JPonyfillReadableStream s) =
     Inr \<lparr>bodyType = Some ReadableStream, contentType = None, contentLength = None,
          bodyFactory = (\<lambda>h. (Inr (Some s), h))\<rparr>"
| "processBodyInit pf (JPonyfillBlob ps t) =
     Inr \<lparr>bodyType = Some Blob, contentType = Some t,
          contentLength = Some (Blob_size (JPonyfillBlob ps t)),
          bodyFactory = stream_over (Blob_stream pf (JPonyfillBlob ps t))\<rparr>"
| "processBodyInit pf (JPonyfillFile ps n t) =
     Inr \<lparr>bodyType = Some Blob, contentType = Some t,
          contentLength = Some (Blob_size (JPonyfillFile ps n t)),
          bodyFactory = stream_over (Blob_stream pf (JPonyfillFile ps n t))\<rparr>"
| "processBodyInit pf (JUint8Array bs) =
     Inr \<lparr>bodyType = Some Uint8Array, contentType = None, contentLength = Some (length bs),
          bodyFactory = stream_over (Readable_from pf (JUint8Array bs))\<rparr>"
| "processBodyInit pf (JArrayBufferView n bs) =
     Inr \<lparr>bodyType = None, contentType = None, contentLength = Some n,
          bodyFactory = stream_over (Readable_from pf (JBuffer bs))\<rparr>"
| "processBodyInit pf (JArrayBuffer bs) =
     Inr \<lparr>bodyType = Some ArrayBuffer, contentType = None, contentLength = Some (length bs),
          bodyFactory = stream_over (Readable_from pf (JBuffer bs))\<rparr>"
| "processBodyInit pf (JReadable a) =
     Inr \<lparr>bodyType = Some Readable, contentType = None, contentLength = None,
          bodyFactory =
            (\<lambda>h. case new_PonyfillReadableStream a h of (s, h') \<Rightarrow> (Inr (Some s), h'))\<rparr>"
| "processBodyInit pf (JBlob bs t) =
     Inr \<lparr>bodyType = None, contentType = Some t, contentLength = Some (length bs),
          bodyFactory = stream_over (Blob_stream pf (JBlob bs t))\<rparr>"
| "processBodyInit pf (JURLSearchParams ps) =
     Inr \<lparr>bodyType = Some String,
          contentType = Some (ascii ''application/x-www-form-urlencoded;charset=UTF-8''),
          contentLength = None,
          bodyFactory =
            stream_over (Readable_from pf (JString (URLSearchParams_toString pf ps)))\<rparr>"
| "processBodyInit pf (JFormData es) =
     (let boundary = random_token pf in
      Inr \<lparr>bodyType = None,
           contentType = Some (ascii ''multipart/form-data; boundary='' @ boundary),
           contentLength = None,
           bodyFactory = stream_over (getStreamFromFormData pf es boundary)\<rparr>)"
| "processBodyInit pf (JIterable cs) =
     Inr \<lparr>bodyType = None, contentType = None, contentLength = None,
          bodyFactory = stream_over (Readable_from pf (JIterable cs))\<rparr>"
| "processBodyInit pf (JObject ob) =
     (if in_buffer ob then
        Inr \<lparr>bodyType = None, contentType = None, contentLength = byteLength ob,
             bodyFactory =
               (\<lambda>h. case as_buffer ob of
                      Inl e \<Rightarrow> (Inl e, h)
                    | Inr buf \<Rightarrow> stream_over (Readable_from pf (JBuffer buf)) h)\<rparr>
      else if in_stream ob then
        Inr \<lparr>bodyType = None, contentType = type_member ob, contentLength = size_member ob,
             bodyFactory =
               (\<lambda>h. case factory_outcome ob of
                      Inl e \<Rightarrow> (Inl e, h)
                    | Inr cs \<Rightarrow> stream_over (byte_stream cs) h)\<rparr>
      else if in_sort ob then
        Inr \<lparr>bodyType = Some String,
             contentType = Some (ascii ''application/x-www-form-urlencoded;charset=UTF-8''),
             contentLength = None,
             bodyFactory =
               stream_over (Readable_from pf (JString (object_toString pf (JObject ob))))\<rparr>
      else if in_forEach ob then
        (let boundary = random_token pf in
         Inr \<lparr>bodyType = None,
              contentType = Some (ascii ''multipart/form-data; boundary='' @ boundary),
              contentLength = None,
              bodyFactory =
                (\<lambda>h. case factory_outcome ob of
                       Inl e \<Rightarrow> (Inl e, h)
                     | Inr cs \<Rightarrow> stream_over (byte_stream cs) h)\<rparr>)
      else if iterator ob then
        Inr \<lparr>bodyType = None, contentType = None, contentLength = None,
             bodyFactory = stream_over (Readable_from pf (JObject ob))\<rparr>
      else Inl UnknownBodyType)"
| "processBodyInit pf JPrimitive = Inl TypeError"

text \<open>
  The source variants as the specification lists them: null, string, Buffer, stream,
  blob-like, typed array, ArrayBuffer, Readable, form-data set, URL-encoded set, and
  iterable or async iterable of chunks. An object of no known class is one of them when it
  is iterable; to have a member called \<^verbatim>\<open>buffer\<close>, \<^verbatim>\<open>stream\<close>, \<^verbatim>\<open>sort\<close> or \<^verbatim>\<open>forEach\<close> does
  not make it a typed array, a blob, a parameter set or a form-data set.
\<close>

fun supported_variant :: "js_value \<Rightarrow> bool" where
  "supported_variant Null = True"
| "supported_variant (JString s) = True"
| "supported_variant (JBuffer bs) = True"
| "supported_variant (JPonyfillReadableStream s) = True"
| "supported_variant (JPonyfillBlob ps t) = True"
| "supported_variant (JPonyfillFile ps n t) = True"
| "supported_variant (JBlob bs t) = True"
| "supported_variant (JUint8Array bs) = True"
| "supported_variant (JArrayBufferView n bs) = True"
| "supported_variant (JArrayBuffer bs) = True"
| "supported_variant (JReadable a) = True"
| "supported_variant (JFormData es) = True"
| "supported_variant (JURLSearchParams ps) = True"
| "supported_variant (JIterable cs) = True"
| "supported_variant (JObject ob) = iterator ob"
| "supported_variant JPrimitive = False"

subsection \<open>The class \<^verbatim>\<open>PonyfillBody\<close>\<close>

text \<open>
  The fields of the object. \<open>generatedBody\<close> is \<^verbatim>\<open>_generatedBody\<close> and \<open>bodyFactory\<close> is
  \<^verbatim>\<open>_bodyFactory\<close>. \<open>factoryCalls\<close> is not a field of the source: it counts the calls of
  \<^verbatim>\<open>_bodyFactory\<close>, as a test that instruments the factory would.
\<close>

record PonyfillBody = ClassifiedSource +
  bodyUsed :: bool
  bodyInit :: BodyPonyfillInit
  options :: PonyfillBodyOptions
  generatedBody :: "nat option"
  factoryCalls :: nat

definition new_PonyfillBody ::
  "'j platform \<Rightarrow> BodyPonyfillInit \<Rightarrow> PonyfillBodyOptions \<Rightarrow> error + PonyfillBody" where
  "new_PonyfillBody pf init opts =
     (case processBodyInit pf init of
        Inl e \<Rightarrow> Inl e
      | Inr cs \<Rightarrow>
          Inr \<lparr>bodyType = bodyType cs, contentType = contentType cs,
               contentLength = contentLength cs, bodyFactory = bodyFactory cs,
               bodyUsed = False, bodyInit = init, options = opts,
               generatedBody = None, factoryCalls = 0\<rparr>)"

text \<open>
  \<^verbatim>\<open>generateBody\<close>. When the factory throws, the assignment to \<^verbatim>\<open>_generatedBody\<close> is not
  reached.
\<close>

definition generateBody ::
  "PonyfillBody \<Rightarrow> heap \<Rightarrow> (error + nat option) \<times> PonyfillBody \<times> heap" where
  "generateBody this h =
     (case generatedBody this of
        Some s \<Rightarrow> (Inr (Some s), this, h)
      | None \<Rightarrow>
          (case bodyFactory this h of
             (Inl e, h') \<Rightarrow> (Inl e, this\<lparr>factoryCalls := Suc (factoryCalls this)\<rparr>, h')
           | (Inr body, h') \<Rightarrow>
               (Inr body,
                this\<lparr>generatedBody := body, factoryCalls := Suc (factoryCalls this)\<rparr>,
                h')))"

text \<open>
  The getter \<^verbatim>\<open>body\<close>. Each read makes a new proxy; \<^verbatim>\<open>new Proxy\<close> throws a \<^verbatim>\<open>TypeError\<close> when
  its target \<^verbatim>\<open>_body.readable\<close> is no object.
\<close>

definition body ::
  "PonyfillBody \<Rightarrow> heap \<Rightarrow> (error + nat option) \<times> PonyfillBody \<times> heap" where
  "body this h =
     (case generateBody this h of
        (Inl e, this', h') \<Rightarrow> (Inl e, this', h')
      | (Inr None, this', h') \<Rightarrow> (Inr None, this', h')
      | (Inr (Some s), this', h') \<Rightarrow>
          (case streams h' s of
             None \<Rightarrow> (Inl TypeError, this', h')
           | Some a \<Rightarrow> (case new_Proxy s a h' of (p, h'') \<Rightarrow> (Inr (Some p), this', h''))))"

text \<open>
  Listening to \<^verbatim>\<open>'data'\<close>, \<^verbatim>\<open>'end'\<close> and \<^verbatim>\<open>'error'\<close> of a Readable: it delivers its chunks and
  ends or fails; one that has ended before emits nothing any more. What is thrown inside
  \<^verbatim>\<open>new Promise\<close> rejects the promise.
\<close>

definition collectChunksFromReadable ::
  "PonyfillBody \<Rightarrow> heap \<Rightarrow> js_value list promise \<times> PonyfillBody \<times> heap" where
  "collectChunksFromReadable this h =
     (case generateBody this h of
        (Inl e, this', h') \<Rightarrow> (Rejected e, this', h')
      | (Inr None, this', h') \<Rightarrow> (Resolved [], this', h')
      | (Inr (Some s), this', h') \<Rightarrow>
          (case readable_of h' s of
             None \<Rightarrow> (Rejected TypeError, this', h')
           | Some (a, r) \<Rightarrow>
               if ended r then (Pending, this', h')
               else
                 ((case failure r of None \<Rightarrow> Resolved (chunks r) | Some e \<Rightarrow> Rejected e),
                  this', mark_ended a r h')))"

text \<open>
  In the \<^verbatim>\<open>async\<close> methods below, what a step throws rejects the promise of the method.
\<close>

definition type_or_empty :: "PonyfillBody \<Rightarrow> js_string" where
  "type_or_empty this = (case contentType this of None \<Rightarrow> [] | Some t \<Rightarrow> t)"

definition blob :: "PonyfillBody \<Rightarrow> heap \<Rightarrow> js_value promise \<times> PonyfillBody \<times> heap" where
  "blob this h =
     (if bodyType this = Some Blob then (Resolved (bodyInit this), this, h)
      else if bodyType this = Some String \<or> bodyType this = Some Buffer
            \<or> bodyType this = Some Uint8Array then
        (Resolved (JPonyfillBlob [bodyInit this] (type_or_empty this)), this, h)
      else if bodyType this = Some ArrayBuffer then
        (case Buffer_from (bodyInit this) of
           Inl e \<Rightarrow> (Rejected e, this, h)
         | Inr buf \<Rightarrow> (Resolved (JPonyfillBlob [JBuffer buf] (type_or_empty this)), this, h))
      else
        (case collectChunksFromReadable this h of
           (Resolved cs, this', h') \<Rightarrow>
             (Resolved (JPonyfillBlob cs (type_or_empty this)), this', h')
         | (Rejected e, this', h') \<Rightarrow> (Rejected e, this', h')
         | (Pending, this', h') \<Rightarrow> (Pending, this', h')
         | (Thrown e, this', h') \<Rightarrow> (Rejected e, this', h')))"

definition arrayBuffer :: "PonyfillBody \<Rightarrow> heap \<Rightarrow> bytes promise \<times> PonyfillBody \<times> heap" where
  "arrayBuffer this h =
     (if bodyType this = Some ArrayBuffer then (Resolved (byte_content (bodyInit this)), this, h)
      else if bodyType this = Some Uint8Array \<or> bodyType this = Some Buffer then
        (Resolved (uint8ArrayToArrayBuffer (byte_content (bodyInit this))), this, h)
      else if bodyType this = Some String then
        (case Buffer_from (bodyInit this) of
           Inl e \<Rightarrow> (Rejected e, this, h)
         | Inr buf \<Rightarrow> (Resolved (uint8ArrayToArrayBuffer buf), this, h))
      else if bodyType this = Some Blob then (Blob_arrayBuffer (bodyInit this), this, h)
      else
        (case blob this h of
           (Resolved b, this', h') \<Rightarrow> (Blob_arrayBuffer b, this', h')
         | (Rejected e, this', h') \<Rightarrow> (Rejected e, this', h')
         | (Pending, this', h') \<Rightarrow> (Pending, this', h')
         | (Thrown e, this', h') \<Rightarrow> (Rejected e, this', h')))"

fun instanceof_PonyfillBlob :: "js_value \<Rightarrow> bool" where
  "instanceof_PonyfillBlob (JPonyfillBlob ps t) = True"
| "instanceof_PonyfillBlob (JPonyfillFile ps n t) = True"
| "instanceof_PonyfillBlob _ = False"

definition buffer :: "PonyfillBody \<Rightarrow> heap \<Rightarrow> bytes promise \<times> PonyfillBody \<times> heap" where
  "buffer this h =
     (if bodyType this = Some Buffer then (Resolved (byte_content (bodyInit this)), this, h)
      else if bodyType this = Some String then
        (case Buffer_from (bodyInit this) of
           Inl e \<Rightarrow> (Rejected e, this, h)
         | Inr buf \<Rightarrow> (Resolved buf, this, h))
      else if bodyType this = Some Uint8Array \<or> bodyType this = Some ArrayBuffer then
        (case Buffer_from (bodyInit this) of
           Inl e \<Rightarrow> (Rejected e, this, h)
         | Inr buf \<Rightarrow> (Resolved buf, this, h))
      else if bodyType this = Some Blob then
        (if instanceof_PonyfillBlob (bodyInit this) then (Blob_buffer (bodyInit this), this, h)
         else (Blob_arrayBuffer (bodyInit this), this, h))
      else
        (case collectChunksFromReadable this h of
           (Resolved cs, this', h') \<Rightarrow>
             (case Buffer_concat cs of
                Inl e \<Rightarrow> (Rejected e, this', h')
              | Inr buf \<Rightarrow> (Resolved buf, this', h'))
         | (Rejected e, this', h') \<Rightarrow> (Rejected e, this', h')
         | (Pending, this', h') \<Rightarrow> (Pending, this', h')
         | (Thrown e, this', h') \<Rightarrow> (Rejected e, this', h')))"

text \<open>
  The method \<^verbatim>\<open>text()\<close>, here \<open>text_body\<close>. It returns \<^verbatim>\<open>this.bodyInit as string\<close> when the type is \<^verbatim>\<open>String\<close>: the value
  the body was constructed from, as it is. The cast does nothing at run time, so the
  result is a value, a string only if that value is one.
\<close>

definition text_body :: "PonyfillBody \<Rightarrow> heap \<Rightarrow> js_value promise \<times> PonyfillBody \<times> heap" where
  "text_body this h =
     (if bodyType this = Some String then (Resolved (bodyInit this), this, h)
      else
        (case buffer this h of
           (Resolved buf, this', h') \<Rightarrow> (Resolved (JString (utf8_decode buf)), this', h')
         | (Rejected e, this', h') \<Rightarrow> (Rejected e, this', h')
         | (Pending, this', h') \<Rightarrow> (Pending, this', h')
         | (Thrown e, this', h') \<Rightarrow> (Rejected e, this', h')))"

text \<open>\<^verbatim>\<open>JSON.parse\<close> converts its argument to a string first.\<close>

fun ToString :: "'j platform \<Rightarrow> js_value \<Rightarrow> js_string" where
  "ToString pf (JString s) = s"
| "ToString pf (JURLSearchParams ps) = URLSearchParams_toString pf ps"
| "ToString pf v = object_toString pf v"

definition json :: "'j platform \<Rightarrow> PonyfillBody \<Rightarrow> heap \<Rightarrow> 'j promise \<times> PonyfillBody \<times> heap" where
  "json pf this h =
     (case text_body this h of
        (Resolved t, this', h') \<Rightarrow>
          (case JSON_parse pf (ToString pf t) of
             None \<Rightarrow> (Rejected SyntaxError, this', h')
           | Some v \<Rightarrow> (Resolved v, this', h'))
      | (Rejected e, this', h') \<Rightarrow> (Rejected e, this', h')
      | (Pending, this', h') \<Rightarrow> (Pending, this', h')
      | (Thrown e, this', h') \<Rightarrow> (Rejected e, this', h'))"

subsection \<open>Decoding form data\<close>

text \<open>
  Modelled from the spec: the method \<^verbatim>\<open>set\<close> of \<^verbatim>\<open>PonyfillFormData\<close> (\<^verbatim>\<open>FormData.js\<close> is
  not among the sources). The spec describes the collection as an ordered, name-keyed
  multi-map with \<^verbatim>\<open>set\<close>, \<^verbatim>\<open>get\<close> and \<^verbatim>\<open>forEach\<close> that behaves as the standard form-data
  collection does. There, \<^verbatim>\<open>set\<close> puts the new entry in the place of the first entry of
  that name and removes the other entries of that name, or appends the entry when the
  name is new.
\<close>

fun FormData_set ::
  "js_string \<Rightarrow> js_value \<Rightarrow> (js_string \<times> js_value) list \<Rightarrow> (js_string \<times> js_value) list" where
  "FormData_set name v [] = [(name, v)]"
| "FormData_set name v (e # es) =
     (if fst e = name then (name, v) # filter (\<lambda>x. fst x \<noteq> name) es
      else e # FormData_set name v es)"

text \<open>
  The promise that \<^verbatim>\<open>formData()\<close> returns and the collection its handlers fill. The
  promise keeps its first settlement; \<^verbatim>\<open>resolve(formData)\<close> hands out the collection
  object itself.
\<close>

record file_listener =
  part_name :: js_string
  part_filename :: js_string
  part_mimeType :: js_string
  part_chunks :: "js_value list"

record decode_state =
  settled :: "unit promise"
  entries :: "(js_string \<times> js_value) list"
  file_streams :: "nat \<Rightarrow> file_listener option"

definition reject :: "error \<Rightarrow> decode_state \<Rightarrow> decode_state" where
  "reject e st = (if settled st = Pending then st\<lparr>settled := Rejected e\<rparr> else st)"

definition resolve :: "decode_state \<Rightarrow> decode_state" where
  "resolve st = (if settled st = Pending then st\<lparr>settled := Resolved ()\<rparr> else st)"

definition formData_set :: "js_string \<Rightarrow> js_value \<Rightarrow> decode_state \<Rightarrow> decode_state" where
  "formData_set name v st = st\<lparr>entries := FormData_set name v (entries st)\<rparr>"

text \<open>
  The handlers that \<^verbatim>\<open>formData()\<close> registers with \<^verbatim>\<open>bb.on\<close>, one equation each, and the
  handlers that the handler of \<^verbatim>\<open>'file'\<close> registers on the file stream: \<open>file_streams\<close> holds,
  for each file stream with handlers, the name, file name and type of its part and the
  array \<^verbatim>\<open>chunks\<close> of its closure. A file is set on the collection by the handler of
  \<^verbatim>\<open>'close'\<close> of its stream. An event of a stream without handlers does nothing.
\<close>

fun bb_on :: "FormDataLimits \<Rightarrow> bb_event \<Rightarrow> decode_state \<Rightarrow> decode_state" where
  "bb_on lim (Field name val nameTruncated valueTruncated) st =
     (let st1 = (if nameTruncated
                 then reject (FieldNameSizeExceeded (limit_value (fieldNameSize lim))) st
                 else st);
          st2 = (if valueTruncated
                 then reject (FieldValueSizeExceeded (limit_value (fieldSize lim))) st1
                 else st1)
      in formData_set name (JString val) st2)"
| "bb_on lim FieldsLimit st = reject (FieldsLimitExceeded (limit_value (fields_max lim))) st"
| "bb_on lim (File i name filename mimeType) st =
     st\<lparr>file_streams := (file_streams st)
          (i \<mapsto> \<lparr>part_name = name, part_filename = filename, part_mimeType = mimeType,
                 part_chunks = []\<rparr>)\<rparr>"
| "bb_on lim (FileLimit i) st =
     (case file_streams st i of
        None \<Rightarrow> st
      | Some l \<Rightarrow> reject (FileSizeLimitExceeded (limit_value (fileSize lim))) st)"
| "bb_on lim (FileData i chunk) st =
     (case file_streams st i of
        None \<Rightarrow> st
      | Some l \<Rightarrow>
          st\<lparr>file_streams := (file_streams st)
               (i \<mapsto> l\<lparr>part_chunks := part_chunks l @ [JBuffer chunk]\<rparr>)\<rparr>)"
| "bb_on lim (FileClose i truncated) st =
     (case file_streams st i of
        None \<Rightarrow> st
      | Some l \<Rightarrow>
          (let st1 = (if truncated
                      then reject (FileSizeLimitExceeded (limit_value (fileSize lim))) st
                      else st);
               file = JPonyfillFile (part_chunks l) (part_filename l) (part_mimeType l)
           in formData_set (part_name l) file st1))"
| "bb_on lim FilesLimit st = reject (FilesLimitExceeded (limit_value (files lim))) st"
| "bb_on lim PartsLimit st = reject (PartsLimitExceeded (limit_value (parts lim))) st"
| "bb_on lim Close st = resolve st"
| "bb_on lim (Error err) st = reject err st"

definition initial_decode_state :: decode_state where
  "initial_decode_state = \<lparr>settled = Pending, entries = [], file_streams = Map.empty\<rparr>"

definition decode_events :: "FormDataLimits \<Rightarrow> bb_event list \<Rightarrow> decode_state" where
  "decode_events lim evs = fold (bb_on lim) evs initial_decode_state"

definition promise_of :: "decode_state \<Rightarrow> js_value promise" where
  "promise_of st =
     (case settled st of
        Pending \<Rightarrow> Pending
      | Resolved u \<Rightarrow> Resolved (JFormData (entries st))
      | Rejected e \<Rightarrow> Rejected e
      | Thrown e \<Rightarrow> Thrown e)"

text \<open>
  \<^verbatim>\<open>{...this.options.formDataLimits, ...opts?.formDataLimits}\<close>: a key that the limits of
  the call have overrides the key of the constructor's limits, also when its value is
  \<^verbatim>\<open>undefined\<close>.
\<close>

definition spread :: "'a option \<Rightarrow> 'a option \<Rightarrow> 'a option" where
  "spread a b = (case b of None \<Rightarrow> a | Some x \<Rightarrow> Some x)"

definition no_limits :: FormDataLimits where
  "no_limits =
     \<lparr>fieldNameSize = None, fieldSize = None, fields_max = None, fileSize = None,
      files = None, parts = None, headerSize = None\<rparr>"

definition merge_limits :: "FormDataLimits option \<Rightarrow> FormDataLimits option \<Rightarrow> FormDataLimits" where
  "merge_limits a b =
     (let x = (case a of None \<Rightarrow> no_limits | Some l \<Rightarrow> l);
          y = (case b of None \<Rightarrow> no_limits | Some l \<Rightarrow> l)
      in \<lparr>fieldNameSize = spread (fieldNameSize x) (fieldNameSize y),
          fieldSize = spread (fieldSize x) (fieldSize y),
          fields_max = spread (fields_max x) (fields_max y),
          fileSize = spread (fileSize x) (fileSize y),
          files = spread (files x) (files y),
          parts = spread (parts x) (parts y),
          headerSize = spread (headerSize x) (headerSize y)\<rparr>)"

text \<open>
  \<^verbatim>\<open>formData()\<close> is not \<^verbatim>\<open>async\<close>: what \<^verbatim>\<open>generateBody\<close> throws, it throws. What is thrown
  inside \<^verbatim>\<open>new Promise\<close>, by \<^verbatim>\<open>busboy({...})\<close> or by reading \<^verbatim>\<open>_body.readable.pipe\<close>, rejects
  the promise.
\<close>

definition formData ::
  "'j platform \<Rightarrow> FormDataLimits option \<Rightarrow> PonyfillBody \<Rightarrow> heap
     \<Rightarrow> js_value promise \<times> PonyfillBody \<times> heap" where
  "formData pf opts this h =
     (if bodyType this = Some FormData then (Resolved (bodyInit this), this, h)
      else
        (case generateBody this h of
           (Inl e, this', h') \<Rightarrow> (Thrown e, this', h')
         | (Inr None, this', h') \<Rightarrow> (Resolved (JFormData []), this', h')
         | (Inr (Some s), this', h') \<Rightarrow>
             (let lim = merge_limits (formDataLimits (options this)) opts in
              case busboy pf (type_or_empty this) lim of
                Inl e \<Rightarrow> (Rejected e, this', h')
              | Inr decoder \<Rightarrow>
                  (case readable_of h' s of
                     None \<Rightarrow> (Rejected TypeError, this', h')
                   | Some (a, r) \<Rightarrow>
                       (promise_of (decode_events lim (decoder r)), this', mark_ended a r h')))))"

subsection \<open>Sequences of calls\<close>

datatype call =
    Call_body
  | Call_arrayBuffer
  | Call_blob
  | Call_formData "FormDataLimits option"
  | Call_buffer
  | Call_json
  | Call_text

text \<open>What a call leaves behind: the object and the heap after it.\<close>

fun exec :: "'j platform \<Rightarrow> call \<Rightarrow> PonyfillBody \<times> heap \<Rightarrow> PonyfillBody \<times> heap" where
  "exec pf Call_body (this, h) = snd (body this h)"
| "exec pf Call_arrayBuffer (this, h) = snd (arrayBuffer this h)"
| "exec pf Call_blob (this, h) = snd (blob this h)"
| "exec pf (Call_formData opts) (this, h) = snd (formData pf opts this h)"
| "exec pf Call_buffer (this, h) = snd (buffer this h)"
| "exec pf Call_json (this, h) = snd (json pf this h)"
| "exec pf Call_text (this, h) = snd (text_body this h)"

definition exec_all ::
  "'j platform \<Rightarrow> call list \<Rightarrow> PonyfillBody \<times> heap \<Rightarrow> PonyfillBody \<times> heap" where
  "exec_all pf cs w = fold (exec pf) cs w"

text \<open>
  A platform to evaluate the model on at concrete inputs: a Readable made from a value
  emits that value as its one chunk, the stream of a blob emits its bytes, the decoder
  closes at once, and the JSON parser knows the text \<^verbatim>\<open>null\<close> only.
\<close>

definition test_platform :: "unit platform" where
  "test_platform =
     \<lparr>Readable_from = (\<lambda>v. \<lparr>chunks = [v], failure = None, ended = False\<rparr>),
      Blob_stream =
        (\<lambda>v. \<lparr>chunks = (case blob_bytes v of None \<Rightarrow> [] | Some bs \<Rightarrow> [JBuffer bs]),
              failure = None, ended = False\<rparr>),
      getStreamFromFormData = (\<lambda>es b. \<lparr>chunks = [], failure = None, ended = False\<rparr>),
      random_token = ascii ''token'',
      URLSearchParams_toString = (\<lambda>ps. []),
      object_toString = (\<lambda>v. ascii ''[object Object]''),
      JSON_parse = (\<lambda>s. if s = ascii ''null'' then Some () else None),
      busboy = (\<lambda>t l. Inr (\<lambda>r. [Close]))\<rparr>"

definition empty_heap :: heap where
  "empty_heap =
     \<lparr>readables = Map.empty, streams = Map.empty, proxies = Map.empty, nextAddr = 0\<rparr>"

definition no_options :: PonyfillBodyOptions where
  "no_options = \<lparr>formDataLimits = None\<rparr>"

subsection \<open>Notions used in the statements\<close>

text \<open>
  A method changes the object only by calling \<^verbatim>\<open>generateBody\<close>, at most once:
  \<open>via_generateBody this h this'\<close> says that \<open>this'\<close> is \<open>this\<close> or what
  \<^verbatim>\<open>generateBody\<close> makes of it.
\<close>

definition via_generateBody :: "PonyfillBody \<Rightarrow> heap \<Rightarrow> PonyfillBody \<Rightarrow> bool" where
  "via_generateBody this h this' = (this' = this \<or> this' = fst (snd (generateBody this h)))"



text \<open>The object up to the memo and the count of factory calls.\<close>

definition same_source :: "PonyfillBody \<Rightarrow> PonyfillBody \<Rightarrow> bool" where
  "same_source this this' = (\<exists>g n. this' = this\<lparr>generatedBody := g, factoryCalls := n\<rparr>)"


text \<open>The bytes of an in-memory source: a string, a Buffer, a Uint8Array or an ArrayBuffer.\<close>

fun in_memory_content :: "js_value \<Rightarrow> bytes option" where
  "in_memory_content (JString s) = Some (utf8_encode s)"
| "in_memory_content (JBuffer bs) = Some bs"
| "in_memory_content (JUint8Array bs) = Some bs"
| "in_memory_content (JArrayBuffer bs) = Some bs"
| "in_memory_content _ = None"

text \<open>
  Well-formed UTF-8 is the encoding of a sequence of Unicode scalar values: the code points
  up to U+10FFFF that are no surrogates.
\<close>

definition scalar_value :: "nat \<Rightarrow> bool" where
  "scalar_value c = (c < 0xD800 \<or> (0xE000 \<le> c \<and> c < 0x110000))"

definition utf8_of_scalars :: "nat list \<Rightarrow> bytes" where
  "utf8_of_scalars cps = concat (map utf8_of_code_point cps)"




text \<open>The fields that make an object behave as one constructed from \<^verbatim>\<open>null\<close>.\<close>

definition null_like :: "PonyfillBody \<Rightarrow> bool" where
  "null_like this =
     (bodyType this = None \<and> generatedBody this = None
      \<and> bodyFactory this = (\<lambda>h. (Inr None, h)))"

text \<open>
  A value passes none of the tests of the classifier when it is an object of no known
  class that has none of the four members and no iterator.
\<close>

fun passes_no_test :: "js_value \<Rightarrow> bool" where
  "passes_no_test (JObject ob) =
     (\<not> in_buffer ob \<and> \<not> in_stream ob \<and> \<not> in_sort ob \<and> \<not> in_forEach ob \<and> \<not> iterator ob)"
| "passes_no_test _ = False"

text \<open>The values from which a body is constructed: all others.\<close>

definition constructs :: "js_value \<Rightarrow> bool" where
  "constructs v = (\<not> passes_no_test v \<and> v \<noteq> JPrimitive)"

text \<open>
  Inputs to evaluate the model on: an object that has a member \<^verbatim>\<open>forEach\<close> which is no
  function and nothing else (\<^verbatim>\<open>{forEach: 0}\<close>), a plain object (\<^verbatim>\<open>{}\<close>), and a platform whose
  decoder reports two fields.
\<close>

definition forEach_object :: js_object where
  "forEach_object =
     \<lparr>in_buffer = False, in_stream = False, in_sort = False, in_forEach = True,
      iterator = False, byteLength = None, type_member = None, size_member = None,
      as_buffer = Inl TypeError, factory_outcome = Inl TypeError\<rparr>"

definition plain_object :: js_object where
  "plain_object = forEach_object\<lparr>in_forEach := False\<rparr>"

definition fields_platform :: "unit platform" where
  "fields_platform =
     test_platform
       \<lparr>busboy :=
          (\<lambda>t l. Inr (\<lambda>r. [Field (ascii ''a'') (ascii ''1'') False False,
                             Field (ascii ''b'') (ascii ''2'') False False, Close]))\<rparr>"

definition name_limit :: FormDataLimits where
  "name_limit = no_limits\<lparr>fieldNameSize := Some (Some 2)\<rparr>"

section \<open>Properties\<close>

subsection \<open>What a call does to the object\<close>

lemma collect_this:
  "via_generateBody this h (fst (snd (collectChunksFromReadable this h)))"
  by (simp add: via_generateBody_def collectChunksFromReadable_def
      split: prod.splits option.splits sum.splits)

lemma body_this: "via_generateBody this h (fst (snd (body this h)))"
  by (simp add: via_generateBody_def body_def split: prod.splits option.splits sum.splits)

lemma blob_this: "via_generateBody this h (fst (snd (blob this h)))"
  using collect_this [of this h]
  by (auto simp add: via_generateBody_def blob_def
      split: prod.splits option.splits promise.splits sum.splits)

lemma buffer_this: "via_generateBody this h (fst (snd (buffer this h)))"
  using collect_this [of this h]
  by (auto simp add: via_generateBody_def buffer_def Blob_buffer_def
      split: prod.splits option.splits promise.splits sum.splits)

lemma arrayBuffer_this: "via_generateBody this h (fst (snd (arrayBuffer this h)))"
  using blob_this [of this h]
  by (auto simp add: via_generateBody_def arrayBuffer_def
      split: prod.splits option.splits promise.splits sum.splits)

lemma text_this: "via_generateBody this h (fst (snd (text_body this h)))"
  using buffer_this [of this h]
  by (auto simp add: via_generateBody_def text_body_def
      split: prod.splits option.splits promise.splits sum.splits)

lemma json_this: "via_generateBody this h (fst (snd (json pf this h)))"
  using text_this [of this h]
  by (auto simp add: via_generateBody_def json_def
      split: prod.splits option.splits promise.splits sum.splits)

lemma formData_this: "via_generateBody this h (fst (snd (formData pf opts this h)))"
  by (auto simp add: via_generateBody_def formData_def Let_def
      split: prod.splits option.splits promise.splits sum.splits)

lemma exec_this: "via_generateBody this h (fst (exec pf c (this, h)))"
  using body_this [of this h] arrayBuffer_this [of this h] blob_this [of this h]
    formData_this [of this h pf] buffer_this [of this h] json_this [of this h pf] text_this [of this h]
  by (cases c) simp_all

lemma generateBody_memo:
  "generatedBody this = Some s \<Longrightarrow> generateBody this h = (Inr (Some s), this, h)"
  by (simp add: generateBody_def)


lemma generateBody_fresh:
  "generatedBody this = None \<Longrightarrow> fst (bodyFactory this h) = Inr b \<Longrightarrow>
     generateBody this h =
       (Inr b, this\<lparr>generatedBody := b, factoryCalls := Suc (factoryCalls this)\<rparr>,
        snd (bodyFactory this h))"
  by (cases "bodyFactory this h") (simp add: generateBody_def)

lemma generateBody_throws:
  "generatedBody this = None \<Longrightarrow> fst (bodyFactory this h) = Inl e \<Longrightarrow>
     generateBody this h =
       (Inl e, this\<lparr>factoryCalls := Suc (factoryCalls this)\<rparr>, snd (bodyFactory this h))"
  by (cases "bodyFactory this h") (simp add: generateBody_def)







lemma same_source_refl: "same_source this this"
proof -
  have "this = this\<lparr>generatedBody := generatedBody this, factoryCalls := factoryCalls this\<rparr>"
    by simp
  then show ?thesis unfolding same_source_def by blast
qed

lemma same_source_trans:
  assumes "same_source a b" and "same_source b c"
  shows "same_source a c"
proof -
  obtain g n where b: "b = a\<lparr>generatedBody := g, factoryCalls := n\<rparr>"
    using assms(1) unfolding same_source_def by blast
  obtain g' n' where c: "c = b\<lparr>generatedBody := g', factoryCalls := n'\<rparr>"
    using assms(2) unfolding same_source_def by blast
  have "c = a\<lparr>generatedBody := g', factoryCalls := n'\<rparr>"
    by (simp add: b c)
  then show ?thesis unfolding same_source_def by blast
qed

lemma generateBody_same_source: "same_source this (fst (snd (generateBody this h)))"
proof (cases "generatedBody this")
  case None
  show ?thesis
  proof (cases "fst (bodyFactory this h)")
    case (Inl e)
    have eq: "this\<lparr>factoryCalls := Suc (factoryCalls this)\<rparr>
        = this\<lparr>generatedBody := None, factoryCalls := Suc (factoryCalls this)\<rparr>"
      using None by simp
    have "fst (snd (generateBody this h))
        = this\<lparr>generatedBody := None, factoryCalls := Suc (factoryCalls this)\<rparr>"
      using None Inl eq by (simp add: generateBody_throws)
    then show ?thesis unfolding same_source_def by blast
  next
    case (Inr b)
    then show ?thesis using None unfolding same_source_def by (simp add: generateBody_fresh) blast
  qed
next
  case (Some s)
  then show ?thesis by (simp add: generateBody_memo same_source_refl)
qed

lemma via_generateBody_same_source:
  "via_generateBody this h this' \<Longrightarrow> same_source this this'"
  using generateBody_same_source [of this h] same_source_refl [of this]
  by (auto simp add: via_generateBody_def)

lemma exec_all_same_source: "same_source (fst w) (fst (exec_all pf cs w))"
proof (induction cs arbitrary: w)
  case Nil
  show ?case by (simp add: exec_all_def same_source_refl)
next
  case (Cons c cs)
  obtain this h where w: "w = (this, h)" by (cases w)
  have "same_source (fst w) (fst (exec pf c w))"
    using exec_this [of this h pf c] via_generateBody_same_source by (simp add: w)
  then show ?case
    using Cons.IH [of "exec pf c w"] same_source_trans [of "fst w" "fst (exec pf c w)"]
    by (simp add: exec_all_def)
qed

lemma in_memory_results:
  assumes "in_memory_content init = Some content"
    and "this = (projr (new_PonyfillBody pf init opts))\<lparr>generatedBody := g, factoryCalls := n\<rparr>"
  shows "fst (arrayBuffer this h) = Resolved content
    \<and> fst (buffer this h) = Resolved content
    \<and> (\<exists>b. fst (blob this h) = Resolved b \<and> Blob_arrayBuffer b = Resolved content)
    \<and> fst (text_body this h) =
           Resolved (JString (case init of JString s \<Rightarrow> s | _ \<Rightarrow> utf8_decode content))"
  using assms
  by (cases init)
    (simp_all add: new_PonyfillBody_def Let_def arrayBuffer_def buffer_def blob_def text_body_def
        uint8ArrayToArrayBuffer_def Blob_arrayBuffer_def)

subsection \<open>Facts about the decoder\<close>














subsection \<open>Facts about a body constructed from \<^verbatim>\<open>null\<close>\<close>

lemma json_state: "snd (json pf this h) = snd (text_body this h)"
  by (auto simp add: json_def split: prod.splits promise.splits option.splits)

lemma generateBody_null_like:
  "null_like this \<Longrightarrow>
     generateBody this h = (Inr None, this\<lparr>factoryCalls := Suc (factoryCalls this)\<rparr>, h)"
  by (simp add: null_like_def generateBody_def)

lemma null_like_count: "null_like this \<Longrightarrow> null_like (this\<lparr>factoryCalls := n\<rparr>)"
  by (simp add: null_like_def)

lemma exec_null_like:
  assumes "null_like this"
  shows "null_like (fst (exec pf c (this, h))) \<and> snd (exec pf c (this, h)) = h"
proof -
  have n: "bodyType this = None" using assms by (simp add: null_like_def)
  have c: "collectChunksFromReadable this h =
      (Resolved [], this\<lparr>factoryCalls := Suc (factoryCalls this)\<rparr>, h)"
    by (simp add: collectChunksFromReadable_def generateBody_null_like [OF assms])
  have b: "blob this h =
      (Resolved (JPonyfillBlob [] (type_or_empty this)),
       this\<lparr>factoryCalls := Suc (factoryCalls this)\<rparr>, h)"
    by (simp add: blob_def n c)
  have u: "buffer this h = (Resolved [], this\<lparr>factoryCalls := Suc (factoryCalls this)\<rparr>, h)"
    by (simp add: buffer_def n c)
  have t: "snd (text_body this h) = (this\<lparr>factoryCalls := Suc (factoryCalls this)\<rparr>, h)"
    by (simp add: text_body_def n u)
  have e: "exec pf c (this, h) = (this\<lparr>factoryCalls := Suc (factoryCalls this)\<rparr>, h)"
  proof (cases c)
    case Call_body
    then show ?thesis by (simp add: body_def generateBody_null_like [OF assms])
  next
    case Call_arrayBuffer
    then show ?thesis by (simp add: arrayBuffer_def n b)
  next
    case Call_blob
    then show ?thesis by (simp add: b)
  next
    case (Call_formData opts)
    then show ?thesis by (simp add: formData_def n generateBody_null_like [OF assms])
  next
    case Call_buffer
    then show ?thesis by (simp add: u)
  next
    case Call_json
    then show ?thesis by (simp add: json_state t)
  next
    case Call_text
    then show ?thesis by (simp add: t)
  qed
  show ?thesis using null_like_count [OF assms] by (simp add: e)
qed

lemma exec_all_null_like:
  "null_like (fst w) \<Longrightarrow>
     null_like (fst (exec_all pf cs w)) \<and> snd (exec_all pf cs w) = snd w"
proof (induction cs arbitrary: w)
  case Nil
  then show ?case by (simp add: exec_all_def)
next
  case (Cons c cs)
  obtain this h where w: "w = (this, h)" by (cases w)
  have "null_like (fst (exec pf c w)) \<and> snd (exec pf c w) = snd w"
    using Cons.prems exec_null_like [of this pf c h] by (simp add: w)
  then show ?case using Cons.IH [of "exec pf c w"] by (simp add: exec_all_def)
qed

lemma new_null_body:
  "new_PonyfillBody pf Null opts =
     Inr \<lparr>bodyType = None, contentType = None, contentLength = None,
          bodyFactory = (\<lambda>h. (Inr None, h)), bodyUsed = False, bodyInit = Null, options = opts,
          generatedBody = None, factoryCalls = 0\<rparr>"
  by (simp add: new_PonyfillBody_def)

subsection \<open>The UTF-8 codec\<close>

text \<open>
  The decoder reads the encoding of a scalar value back as that scalar value, by the number
  of bytes of the encoding; so does the reading of UTF-16. Hence well-formed UTF-8 is decoded
  and encoded again to itself.
\<close>

lemma unat_byte: "n < 256 \<Longrightarrow> unat (of_nat n :: 8 word) = n"
  by (simp add: unat_of_nat)

lemma unat_unit: "n < 65536 \<Longrightarrow> unat (of_nat n :: 16 word) = n"
  by (simp add: unat_of_nat)

lemma low6: "(0x80 + x mod 0x40) mod 0x40 = (x mod 0x40 :: nat)"
proof -
  have "(0x80 + x mod 0x40) mod 0x40 = (2 * 0x40 + x mod 0x40) mod (0x40 :: nat)" by simp
  also have "\<dots> = (x mod 0x40) mod 0x40" by (simp only: mod_mult_self3)
  finally show ?thesis by simp
qed

lemma cont_range: "0x80 \<le> 0x80 + x mod 0x40 \<and> 0x80 + x mod 0x40 \<le> (0xBF :: nat)"
proof -
  have "x mod 0x40 < 0x40" by simp
  then show ?thesis by linarith
qed

lemma lead2_mod: "d < 0x20 \<Longrightarrow> (0xC0 + d) mod 0x20 = (d :: nat)"
proof -
  assume d: "d < 0x20"
  have "(0xC0 + d) mod 0x20 = (6 * 0x20 + d) mod (0x20 :: nat)" by simp
  also have "\<dots> = d mod 0x20" by (simp only: mod_mult_self3)
  finally show ?thesis using d by simp
qed

lemma div_bound: "(c :: nat) < k * m \<Longrightarrow> 0 < m \<Longrightarrow> c div m < k"
  by (simp add: less_mult_imp_div_less mult.commute)

lemma decode_one_byte:
  assumes "c < 0x80"
  shows "utf8_decoder utf8_initial (map unat (utf8_of_code_point c) @ rest)
           = c # utf8_decoder utf8_initial rest"
  using assms by (simp add: utf8_of_code_point_def unat_byte utf8_lead_def utf8_initial_def)

lemma decode_two_bytes:
  assumes "0x80 \<le> c" and "c < 0x800"
  shows "utf8_decoder utf8_initial (map unat (utf8_of_code_point c) @ rest)
           = c # utf8_decoder utf8_initial rest"
proof -
  define d where "d = c div 0x40"
  define x where "x = 0x80 + c mod 0x40"
  have dlt: "d < 0x20" using assms(2) div_bound [of c "0x20" "0x40"] by (simp add: d_def)
  have dge: "2 \<le> d"
  proof -
    have "2 * 0x40 \<le> c" using assms(1) by simp
    then have "2 \<le> c div 0x40" by (simp add: less_eq_div_iff_mult_less_eq)
    then show ?thesis by (simp add: d_def)
  qed
  have xr: "0x80 \<le> x \<and> x \<le> 0xBF" using cont_range [of c] by (simp add: x_def)
  have b1: "unat (0xC0 + of_nat d :: 8 word) = 0xC0 + d"
    using dlt unat_byte [of "0xC0 + d"] by simp
  have b2: "unat (of_nat x :: 8 word) = x"
    using xr by (intro unat_byte) simp
  have m: "(0xC0 + d) mod 0x20 = d" using dlt by (rule lead2_mod)
  have e: "d * 0x40 + x mod 0x40 = c"
    using low6 [of c] by (simp add: d_def x_def)
  have enc: "utf8_of_code_point c = [of_nat (0xC0 + d), of_nat x]"
    using assms by (simp add: utf8_of_code_point_def d_def x_def)
  have l: "utf8_lead (0xC0 + d) = ([], utf8_initial\<lparr>bytes_needed := 1, code_point := d\<rparr>)"
    using dlt dge m by (simp add: utf8_lead_def)
  show ?thesis
    using xr e by (simp add: enc b1 b2 l utf8_initial_def)
qed

lemma lead3_mod: "d < 0x10 \<Longrightarrow> (0xE0 + d) mod 0x10 = (d :: nat)"
proof -
  assume d: "d < 0x10"
  have "(0xE0 + d) mod 0x10 = (14 * 0x10 + d) mod (0x10 :: nat)" by simp
  also have "\<dots> = d mod 0x10" by (simp only: mod_mult_self3)
  finally show ?thesis using d by simp
qed

lemma div_lower: "k * m \<le> (c :: nat) \<Longrightarrow> 0 < m \<Longrightarrow> k \<le> c div m"
  by (simp add: less_eq_div_iff_mult_less_eq)

lemma decode_three_bytes:
  assumes "0x800 \<le> c" and "c < 0x10000" and "c < 0xD800 \<or> 0xE000 \<le> c"
  shows "utf8_decoder utf8_initial (map unat (utf8_of_code_point c) @ rest)
           = c # utf8_decoder utf8_initial rest"
proof -
  define e where "e = c div 0x40"
  define d where "d = e div 0x40"
  define x2 where "x2 = 0x80 + e mod 0x40"
  define x3 where "x3 = 0x80 + c mod 0x40"
  define lo where "lo = (if d = 0 then 0xA0 else (0x80 :: nat))"
  define hi where "hi = (if d = 13 then 0x9F else (0xBF :: nat))"
  have dd: "c div 0x1000 = d"
    by (simp add: d_def e_def div_mult2_eq)
  have elt: "e < 0x400" using assms(2) div_bound [of c "0x400" "0x40"] by (simp add: e_def)
  have ege: "0x20 \<le> e" using assms(1) div_lower [of "0x20" "0x40" c] by (simp add: e_def)
  have dlt: "d < 0x10" using elt div_bound [of e "0x10" "0x40"] by (simp add: d_def)
  have esplit: "e = d * 0x40 + e mod 0x40" by (simp add: d_def)
  have csplit: "c = e * 0x40 + c mod 0x40" by (simp add: e_def)
  have em: "e mod 0x40 < 0x40" by simp
  have x2r: "lo \<le> x2 \<and> x2 \<le> hi"
  proof -
    have a: "d = 0 \<Longrightarrow> 0x20 \<le> e mod 0x40" using esplit ege by simp
    have b: "d = 13 \<Longrightarrow> e mod 0x40 < 0x20"
    proof -
      assume d13: "d = 13"
      have cm: "c mod 0x40 < 0x40" by simp
      have "c < 0xE000" using csplit esplit d13 em cm by linarith
      then have "c < 0xD800" using assms(3) by linarith
      then have "e < 0x360" using div_bound [of c "0x360" "0x40"] by (simp add: e_def)
      then show ?thesis using esplit d13 by linarith
    qed
    show ?thesis using a b em by (auto simp add: lo_def hi_def x2_def)
  qed
  have x2b: "0x80 \<le> x2 \<and> x2 \<le> 0xBF" using x2r by (auto simp add: lo_def hi_def split: if_splits)
  have x3r: "0x80 \<le> x3 \<and> x3 \<le> 0xBF" using cont_range [of c] by (simp add: x3_def)
  have b1: "unat (0xE0 + of_nat d :: 8 word) = 0xE0 + d"
    using dlt unat_byte [of "0xE0 + d"] by simp
  have b2: "unat (of_nat x2 :: 8 word) = x2" using x2b by (intro unat_byte) simp
  have b3: "unat (of_nat x3 :: 8 word) = x3" using x3r by (intro unat_byte) simp
  have m: "(0xE0 + d) mod 0x10 = d" using dlt by (rule lead3_mod)
  have s2: "d * 0x40 + x2 mod 0x40 = e"
    using low6 [of e] esplit by (simp add: x2_def)
  have s3: "e * 0x40 + x3 mod 0x40 = c"
    using low6 [of c] csplit by (simp add: x3_def)
  have enc: "utf8_of_code_point c = [of_nat (0xE0 + d), of_nat x2, of_nat x3]"
    using assms by (simp add: utf8_of_code_point_def dd x2_def x3_def e_def)
  have l: "utf8_lead (0xE0 + d) =
      ([], utf8_initial\<lparr>bytes_needed := 2, code_point := d,
             lower_boundary := lo, upper_boundary := hi\<rparr>)"
    using dlt m by (simp add: utf8_lead_def lo_def hi_def)
  show ?thesis
    using x2r x3r s2 s3 by (simp add: enc b1 b2 b3 l utf8_initial_def)
qed

lemma lead4_mod: "d < 0x08 \<Longrightarrow> (0xF0 + d) mod 0x08 = (d :: nat)"
proof -
  assume d: "d < 0x08"
  have "(0xF0 + d) mod 0x08 = (30 * 0x08 + d) mod (0x08 :: nat)" by simp
  also have "\<dots> = d mod 0x08" by (simp only: mod_mult_self3)
  finally show ?thesis using d by simp
qed

lemma decode_four_bytes:
  assumes "0x10000 \<le> c" and "c < 0x110000"
  shows "utf8_decoder utf8_initial (map unat (utf8_of_code_point c) @ rest)
           = c # utf8_decoder utf8_initial rest"
proof -
  define e where "e = c div 0x40"
  define f where "f = e div 0x40"
  define d where "d = f div 0x40"
  define x2 where "x2 = 0x80 + f mod 0x40"
  define x3 where "x3 = 0x80 + e mod 0x40"
  define x4 where "x4 = 0x80 + c mod 0x40"
  define lo where "lo = (if d = 0 then 0x90 else (0x80 :: nat))"
  define hi where "hi = (if d = 4 then 0x8F else (0xBF :: nat))"
  have ff: "c div 0x1000 = f"
    by (simp add: f_def e_def div_mult2_eq)
  have dd: "c div 0x40000 = d"
    using ff by (simp add: d_def div_mult2_eq [of c "0x1000" "0x40", simplified])
  have flt: "f < 0x110" using assms(2) div_bound [of c "0x110" "0x1000"] ff by simp
  have fge: "0x10 \<le> f" using assms(1) div_lower [of "0x10" "0x1000" c] ff by simp
  have dlt: "d < 0x05" using flt div_bound [of f "0x05" "0x40"] by (simp add: d_def)
  have fsplit: "f = d * 0x40 + f mod 0x40" by (simp add: d_def)
  have esplit: "e = f * 0x40 + e mod 0x40" by (simp add: f_def)
  have csplit: "c = e * 0x40 + c mod 0x40" by (simp add: e_def)
  have fm: "f mod 0x40 < 0x40" by simp
  have x2r: "lo \<le> x2 \<and> x2 \<le> hi"
  proof -
    have a: "d = 0 \<Longrightarrow> 0x10 \<le> f mod 0x40" using fsplit fge by simp
    have b: "d = 4 \<Longrightarrow> f mod 0x40 < 0x10" using fsplit flt by linarith
    show ?thesis using a b fm by (auto simp add: lo_def hi_def x2_def)
  qed
  have x2b: "0x80 \<le> x2 \<and> x2 \<le> 0xBF" using x2r by (auto simp add: lo_def hi_def split: if_splits)
  have x3r: "0x80 \<le> x3 \<and> x3 \<le> 0xBF" using cont_range [of e] by (simp add: x3_def)
  have x4r: "0x80 \<le> x4 \<and> x4 \<le> 0xBF" using cont_range [of c] by (simp add: x4_def)
  have b1: "unat (0xF0 + of_nat d :: 8 word) = 0xF0 + d"
    using dlt unat_byte [of "0xF0 + d"] by simp
  have b2: "unat (of_nat x2 :: 8 word) = x2" using x2b by (intro unat_byte) simp
  have b3: "unat (of_nat x3 :: 8 word) = x3" using x3r by (intro unat_byte) simp
  have b4: "unat (of_nat x4 :: 8 word) = x4" using x4r by (intro unat_byte) simp
  have m: "(0xF0 + d) mod 0x08 = d" using dlt lead4_mod [of d] by simp
  have s2: "d * 0x40 + x2 mod 0x40 = f"
    using low6 [of f] fsplit by (simp add: x2_def)
  have s3: "f * 0x40 + x3 mod 0x40 = e"
    using low6 [of e] esplit by (simp add: x3_def)
  have s4: "e * 0x40 + x4 mod 0x40 = c"
    using low6 [of c] csplit by (simp add: x4_def)
  have enc: "utf8_of_code_point c = [of_nat (0xF0 + d), of_nat x2, of_nat x3, of_nat x4]"
    using assms by (simp add: utf8_of_code_point_def dd ff x2_def x3_def x4_def e_def)
  have l: "utf8_lead (0xF0 + d) =
      ([], utf8_initial\<lparr>bytes_needed := 3, code_point := d,
             lower_boundary := lo, upper_boundary := hi\<rparr>)"
    using dlt m by (simp add: utf8_lead_def lo_def hi_def)
  show ?thesis
    using x2r x3r x4r s2 s3 s4 by (simp add: enc b1 b2 b3 b4 l utf8_initial_def)
qed

lemma decode_scalar:
  assumes "scalar_value c"
  shows "utf8_decoder utf8_initial (map unat (utf8_of_code_point c) @ rest)
           = c # utf8_decoder utf8_initial rest"
proof -
  have "c < 0x110000" using assms by (auto simp add: scalar_value_def)
  then consider "c < 0x80" | "0x80 \<le> c \<and> c < 0x800" | "0x800 \<le> c \<and> c < 0x10000"
    | "0x10000 \<le> c \<and> c < 0x110000"
    by linarith
  then show ?thesis
  proof cases
    case 1 then show ?thesis by (rule decode_one_byte)
  next
    case 2 then show ?thesis using decode_two_bytes by blast
  next
    case 3
    have "c < 0xD800 \<or> 0xE000 \<le> c" using assms by (auto simp add: scalar_value_def)
    then show ?thesis using 3 decode_three_bytes by blast
  next
    case 4 then show ?thesis using decode_four_bytes by blast
  qed
qed

lemma decode_scalars:
  "list_all scalar_value cps \<Longrightarrow>
     utf8_decoder utf8_initial (map unat (utf8_of_scalars cps)) = cps"
proof (induction cps)
  case Nil
  then show ?case by (simp add: utf8_of_scalars_def utf8_initial_def)
next
  case (Cons c cps)
  have "utf8_decoder utf8_initial (map unat (utf8_of_code_point c) @ map unat (utf8_of_scalars cps))
      = c # utf8_decoder utf8_initial (map unat (utf8_of_scalars cps))"
    using Cons.prems decode_scalar by simp
  then show ?case using Cons by (simp add: utf8_of_scalars_def)
qed

lemma code_points_plain:
  "\<not> is_high_surrogate u \<Longrightarrow> code_points (u # us) = scalar_of_unit u # code_points us"
  by (cases us) simp_all

lemma units_of_small_scalar:
  assumes "c < 0x10000" and "c < 0xD800 \<or> 0xE000 \<le> c"
  shows "code_points (utf16_of_code_point c @ us) = c # code_points us"
proof -
  have u: "unat (of_nat c :: 16 word) = c" using assms(1) by (intro unat_unit) simp
  have nh: "\<not> is_high_surrogate (of_nat c)"
    using assms(2) by (auto simp add: is_high_surrogate_def word_le_nat_alt u)
  have nl: "\<not> is_low_surrogate (of_nat c)"
    using assms(2) by (auto simp add: is_low_surrogate_def word_le_nat_alt u)
  have "scalar_of_unit (of_nat c) = c"
    using nh nl by (simp add: scalar_of_unit_def u)
  then show ?thesis
    using assms(1) nh by (simp add: utf16_of_code_point_def code_points_plain)
qed

lemma units_of_large_scalar:
  assumes "0x10000 \<le> c" and "c < 0x110000"
  shows "code_points (utf16_of_code_point c @ us) = c # code_points us"
proof -
  define k where "k = c - 0x10000"
  define a where "a = k div 0x400"
  define b where "b = k mod 0x400"
  have klt: "k < 0x100000" using assms by (simp add: k_def)
  have alt: "a < 0x400" using klt div_bound [of k "0x400" "0x400"] by (simp add: a_def)
  have blt: "b < 0x400" by (simp add: b_def)
  have ksplit: "k = a * 0x400 + b" by (simp add: a_def b_def)
  have ck: "c = 0x10000 + k" using assms(1) by (simp add: k_def)
  have u: "unat (0xD800 + of_nat a :: 16 word) = 0xD800 + a"
    using alt unat_unit [of "0xD800 + a"] by simp
  have v: "unat (0xDC00 + of_nat b :: 16 word) = 0xDC00 + b"
    using blt unat_unit [of "0xDC00 + b"] by simp
  have hs: "is_high_surrogate (0xD800 + of_nat a)"
    using alt by (simp add: is_high_surrogate_def word_le_nat_alt u)
  have ls: "is_low_surrogate (0xDC00 + of_nat b)"
    using blt by (simp add: is_low_surrogate_def word_le_nat_alt v)
  have enc: "utf16_of_code_point c = [0xD800 + of_nat a, 0xDC00 + of_nat b]"
    using assms(1) by (simp add: utf16_of_code_point_def a_def b_def k_def)
  have val: "0x10000 + (0xD800 + a - 0xD800) * 0x400 + (0xDC00 + b - 0xDC00) = c"
    using ck ksplit by simp
  have "code_points (utf16_of_code_point c @ us)
      = (0x10000 + (0xD800 + a - 0xD800) * 0x400 + (0xDC00 + b - 0xDC00)) # code_points us"
    using hs ls by (simp add: enc u v)
  then show ?thesis by (simp only: val)
qed

lemma units_of_scalar:
  assumes "scalar_value c"
  shows "code_points (utf16_of_code_point c @ us) = c # code_points us"
proof (cases "c < 0x10000")
  case True
  have "c < 0xD800 \<or> 0xE000 \<le> c" using assms by (auto simp add: scalar_value_def)
  then show ?thesis using True by (rule units_of_small_scalar [rotated])
next
  case False
  have "c < 0x110000" using assms by (auto simp add: scalar_value_def)
  then show ?thesis using False units_of_large_scalar [of c us] by simp
qed

lemma units_of_scalars:
  "list_all scalar_value cps \<Longrightarrow> code_points (concat (map utf16_of_code_point cps)) = cps"
  by (induction cps) (simp_all add: units_of_scalar)

lemma utf8_round_trip:
  assumes "list_all scalar_value cps"
  shows "utf8_encode (utf8_decode (utf8_of_scalars cps)) = utf8_of_scalars cps"
  using assms
  by (simp add: utf8_encode_def utf8_decode_def decode_scalars units_of_scalars
      utf8_of_scalars_def [symmetric])

lemma utf8_decode_FF: "utf8_decode [0xFF] = [0xFFFD]"
  by (simp add: utf8_decode_def utf8_lead_def utf8_initial_def utf16_of_code_point_def)

lemma utf8_encode_FFFD: "utf8_encode [0xFFFD] = [0xEF, 0xBF, 0xBD]"
  by (simp add: utf8_encode_def utf8_of_code_point_def scalar_of_unit_def
      is_high_surrogate_def is_low_surrogate_def)

lemma utf8_decode_hi: "utf8_decode [0x68, 0x69] = ascii ''hi''"
  by (simp add: utf8_decode_def utf8_lead_def utf8_initial_def utf16_of_code_point_def ascii_def)

lemma utf8_of_scalars_hi: "utf8_of_scalars [0x68, 0x69] = [0x68, 0x69]"
  by (simp add: utf8_of_scalars_def utf8_of_code_point_def)

lemma ascii_null_neq: "ascii ''{not json'' \<noteq> ascii ''null''"
  by (simp add: ascii_def)

subsection \<open>The memoized stream\<close>




subsection \<open>The flag \<^verbatim>\<open>bodyUsed\<close>\<close>

text \<open>
  Claim C2, as amended. \<^verbatim>\<open>bodyUsed\<close> is false at construction and no method sets it: it is
  false after any calls. No method looks at it either: on a body constructed from a string,
  \<^verbatim>\<open>text()\<close> resolves with that string after any earlier calls.
\<close>

theorem bodyUsed_never_set:
  "constructs init \<Longrightarrow>
     bodyUsed (fst (exec_all pf cs (projr (new_PonyfillBody pf init opts), h0))) = False
     \<and> (\<forall>s. init = JString s \<longrightarrow>
          fst (text_body (fst (exec_all pf cs (projr (new_PonyfillBody pf init opts), h0)))
                 (snd (exec_all pf cs (projr (new_PonyfillBody pf init opts), h0))))
            = Resolved (JString s))"
proof -
  assume a: "constructs init"
  define this0 where "this0 = projr (new_PonyfillBody pf init opts)"
  define w where "w = exec_all pf cs (this0, h0)"
  obtain g n where g: "fst w = this0\<lparr>generatedBody := g, factoryCalls := n\<rparr>"
    using exec_all_same_source [of "(this0, h0)" pf cs] by (auto simp add: same_source_def w_def)
  have u: "bodyUsed this0 = False"
    using a
    by (cases init) (auto simp add: constructs_def this0_def new_PonyfillBody_def Let_def)
  have t: "init = JString s \<Longrightarrow> fst (text_body (fst w) (snd w)) = Resolved (JString s)" for s
    by (simp add: g text_body_def this0_def new_PonyfillBody_def Let_def)
  show ?thesis using u t g unfolding this0_def w_def by simp
qed

theorem bodyUsed_never_set_witness:
  "bodyUsed (fst (exec_all test_platform [Call_text, Call_json]
       (projr (new_PonyfillBody test_platform (JString (ascii ''a'')) no_options), empty_heap))) = False
   \<and> fst (text_body
        (fst (exec_all test_platform [Call_text, Call_json]
          (projr (new_PonyfillBody test_platform (JString (ascii ''a'')) no_options), empty_heap)))
        (snd (exec_all test_platform [Call_text, Call_json]
          (projr (new_PonyfillBody test_platform (JString (ascii ''a'')) no_options), empty_heap))))
      = Resolved (JString (ascii ''a''))"
  using bodyUsed_never_set [of "JString (ascii ''a'')" test_platform "[Call_text, Call_json]"
      no_options empty_heap]
  by (simp add: constructs_def)

text \<open>
  After a first \<^verbatim>\<open>text()\<close> the flag is still false, and a second \<^verbatim>\<open>text()\<close> resolves.
\<close>

theorem second_text_succeeds_counterexample:
  "bodyUsed (fst (snd (text_body
       (projr (new_PonyfillBody test_platform (JString (ascii ''a'')) no_options)) empty_heap))) = False
   \<and> fst (text_body
        (fst (snd (text_body
           (projr (new_PonyfillBody test_platform (JString (ascii ''a'')) no_options)) empty_heap)))
        (snd (snd (text_body
           (projr (new_PonyfillBody test_platform (JString (ascii ''a'')) no_options)) empty_heap))))
      = Resolved (JString (ascii ''a''))"
  by (simp add: new_PonyfillBody_def text_body_def Let_def)

subsection \<open>In-memory sources\<close>

text \<open>
  Claim C3, as amended. For a body constructed from a string, a Buffer, a Uint8Array or an
  ArrayBuffer, after any calls in any order: \<^verbatim>\<open>arrayBuffer()\<close>, \<^verbatim>\<open>buffer()\<close> and the
  \<^verbatim>\<open>arrayBuffer()\<close> of \<^verbatim>\<open>blob()\<close> resolve with the same bytes, the content of the source;
  \<^verbatim>\<open>text()\<close> resolves with the source string itself for a string and with the UTF-8
  decoding of those bytes otherwise; and the text encodes to those bytes when the source is
  a string and when the bytes are well-formed UTF-8, the encoding of scalar values \<open>cps\<close>.
\<close>

theorem in_memory_materializations_agree:
  "in_memory_content init = Some content \<Longrightarrow>
     fst (arrayBuffer (fst (exec_all pf cs (projr (new_PonyfillBody pf init opts), h0)))
                      (snd (exec_all pf cs (projr (new_PonyfillBody pf init opts), h0))))
       = Resolved content
   \<and> fst (buffer (fst (exec_all pf cs (projr (new_PonyfillBody pf init opts), h0)))
                 (snd (exec_all pf cs (projr (new_PonyfillBody pf init opts), h0))))
       = Resolved content
   \<and> (\<exists>b. fst (blob (fst (exec_all pf cs (projr (new_PonyfillBody pf init opts), h0)))
                      (snd (exec_all pf cs (projr (new_PonyfillBody pf init opts), h0))))
             = Resolved b
           \<and> Blob_arrayBuffer b = Resolved content)
   \<and> fst (text_body (fst (exec_all pf cs (projr (new_PonyfillBody pf init opts), h0)))
                    (snd (exec_all pf cs (projr (new_PonyfillBody pf init opts), h0))))
       = Resolved (JString (case init of JString s \<Rightarrow> s | _ \<Rightarrow> utf8_decode content))
   \<and> ((\<exists>s. init = JString s) \<or> (list_all scalar_value cps \<and> content = utf8_of_scalars cps)
        \<longrightarrow> utf8_encode (case init of JString s \<Rightarrow> s | _ \<Rightarrow> utf8_decode content) = content)"
proof -
  assume a: "in_memory_content init = Some content"
  define this0 where "this0 = projr (new_PonyfillBody pf init opts)"
  define w where "w = exec_all pf cs (this0, h0)"
  obtain g n where g: "fst w = this0\<lparr>generatedBody := g, factoryCalls := n\<rparr>"
    using exec_all_same_source [of "(this0, h0)" pf cs] by (auto simp add: same_source_def w_def)
  have r: "fst (arrayBuffer (fst w) (snd w)) = Resolved content
    \<and> fst (buffer (fst w) (snd w)) = Resolved content
    \<and> (\<exists>b. fst (blob (fst w) (snd w)) = Resolved b \<and> Blob_arrayBuffer b = Resolved content)
    \<and> fst (text_body (fst w) (snd w)) =
           Resolved (JString (case init of JString s \<Rightarrow> s | _ \<Rightarrow> utf8_decode content))"
    using in_memory_results [OF a, where this = "fst w" and pf = pf and opts = opts and g = g
        and n = n and h = "snd w"] g
    by (simp add: this0_def)
  have e1: "utf8_encode (case init of JString s \<Rightarrow> s | _ \<Rightarrow> utf8_decode content) = content"
    if "\<exists>s. init = JString s"
    using that a by auto
  have e2: "utf8_encode (case init of JString s \<Rightarrow> s | _ \<Rightarrow> utf8_decode content) = content"
    if "list_all scalar_value cps \<and> content = utf8_of_scalars cps"
    using that a utf8_round_trip [of cps] by (cases init) auto
  show ?thesis using r e1 e2 unfolding this0_def w_def by blast
qed

theorem in_memory_materializations_agree_witness:
  "in_memory_content (JBuffer [0x68, 0x69]) = Some [0x68, 0x69]
   \<and> list_all scalar_value [0x68, 0x69]
   \<and> [0x68, 0x69] = utf8_of_scalars [0x68, 0x69]
   \<and> fst (arrayBuffer
        (fst (exec_all test_platform [Call_blob, Call_text]
           (projr (new_PonyfillBody test_platform (JBuffer [0x68, 0x69]) no_options), empty_heap)))
        (snd (exec_all test_platform [Call_blob, Call_text]
           (projr (new_PonyfillBody test_platform (JBuffer [0x68, 0x69]) no_options), empty_heap))))
      = Resolved [0x68, 0x69]
   \<and> fst (text_body
        (fst (exec_all test_platform [Call_blob, Call_text]
           (projr (new_PonyfillBody test_platform (JBuffer [0x68, 0x69]) no_options), empty_heap)))
        (snd (exec_all test_platform [Call_blob, Call_text]
           (projr (new_PonyfillBody test_platform (JBuffer [0x68, 0x69]) no_options), empty_heap))))
      = Resolved (JString (ascii ''hi''))
   \<and> utf8_encode (ascii ''hi'') = [0x68, 0x69]"
  using in_memory_materializations_agree [of "JBuffer [0x68, 0x69]" "[0x68, 0x69]" test_platform
      "[Call_blob, Call_text]" no_options empty_heap "[0x68, 0x69]"]
  by (simp add: utf8_decode_hi utf8_of_scalars_hi scalar_value_def)

text \<open>
  The byte \<^verbatim>\<open>0xFF\<close> is not UTF-8. A body constructed from the Buffer that holds this one
  byte has \<^verbatim>\<open>buffer()\<close> resolve with it and \<^verbatim>\<open>text()\<close> resolve with the string U+FFFD,
  whose bytes are \<^verbatim>\<open>EF BF BD\<close>.
\<close>

theorem text_of_ill_formed_bytes_counterexample:
  "fst (buffer (projr (new_PonyfillBody test_platform (JBuffer [0xFF]) no_options)) empty_heap)
     = Resolved [0xFF]
   \<and> fst (text_body (projr (new_PonyfillBody test_platform (JBuffer [0xFF]) no_options)) empty_heap)
     = Resolved (JString [0xFFFD])
   \<and> utf8_encode [0xFFFD] = [0xEF, 0xBF, 0xBD]"
  by (simp add: new_PonyfillBody_def buffer_def text_body_def utf8_decode_FF utf8_encode_FFFD)

subsection \<open>The text of a URL-encoded parameter set\<close>

text \<open>
  Claim C5, at a body constructed from a \<^verbatim>\<open>URLSearchParams\<close> object. The content type is
  \<^verbatim>\<open>application/x-www-form-urlencoded;charset=UTF-8\<close> and the content length is \<^verbatim>\<open>null\<close>, as
  claimed. The classifier gives the body the type \<^verbatim>\<open>String\<close>, and \<^verbatim>\<open>text()\<close> returns
  \<^verbatim>\<open>this.bodyInit\<close> for that type: the promise resolves with the parameter set object and
  not with the string that serializes it.
\<close>

theorem urlencoded_text_is_the_parameter_set:
  "contentType (projr (new_PonyfillBody pf (JURLSearchParams ps) opts))
     = Some (ascii ''application/x-www-form-urlencoded;charset=UTF-8'')
   \<and> contentLength (projr (new_PonyfillBody pf (JURLSearchParams ps) opts)) = None
   \<and> fst (text_body (projr (new_PonyfillBody pf (JURLSearchParams ps) opts)) h)
       = Resolved (JURLSearchParams ps)
   \<and> fst (text_body (projr (new_PonyfillBody pf (JURLSearchParams ps) opts)) h)
       \<noteq> Resolved (JString (URLSearchParams_toString pf ps))"
  by (simp add: new_PonyfillBody_def text_body_def)

subsection \<open>The decoded collection\<close>




subsection \<open>Parsing JSON\<close>

text \<open>
  Claim C7. \<^verbatim>\<open>json()\<close> does to the object and to the heap what \<^verbatim>\<open>text()\<close> does. When
  \<^verbatim>\<open>text()\<close> resolves with a string that \<^verbatim>\<open>JSON.parse\<close> accepts, \<^verbatim>\<open>json()\<close> resolves with the
  parsed value; when \<^verbatim>\<open>JSON.parse\<close> throws on it, \<^verbatim>\<open>json()\<close> is rejected with the syntax
  error; and when \<^verbatim>\<open>text()\<close> is rejected, so is \<^verbatim>\<open>json()\<close>, with the same error.
\<close>

theorem json_routes_through_text:
  "snd (json pf this h) = snd (text_body this h)
   \<and> (\<forall>s v. fst (text_body this h) = Resolved (JString s) \<and> JSON_parse pf s = Some v
         \<longrightarrow> fst (json pf this h) = Resolved v)
   \<and> (\<forall>s. fst (text_body this h) = Resolved (JString s) \<and> JSON_parse pf s = None
         \<longrightarrow> fst (json pf this h) = Rejected SyntaxError)
   \<and> (\<forall>e. fst (text_body this h) = Rejected e \<longrightarrow> fst (json pf this h) = Rejected e)"
  by (auto simp add: json_def split: prod.splits promise.splits option.splits)

theorem json_routes_through_text_witness:
  "fst (text_body (projr (new_PonyfillBody test_platform (JString (ascii ''null'')) no_options))
         empty_heap) = Resolved (JString (ascii ''null''))
   \<and> JSON_parse test_platform (ascii ''null'') = Some ()
   \<and> fst (json test_platform
           (projr (new_PonyfillBody test_platform (JString (ascii ''null'')) no_options))
           empty_heap) = Resolved ()
   \<and> fst (text_body
           (projr (new_PonyfillBody test_platform (JString (ascii ''{not json'')) no_options))
           empty_heap) = Resolved (JString (ascii ''{not json''))
   \<and> JSON_parse test_platform (ascii ''{not json'') = None
   \<and> fst (json test_platform
           (projr (new_PonyfillBody test_platform (JString (ascii ''{not json'')) no_options))
           empty_heap) = Rejected SyntaxError"
proof -
  have t1: "fst (text_body (projr (new_PonyfillBody test_platform (JString (ascii ''null'')) no_options))
         empty_heap) = Resolved (JString (ascii ''null''))"
    by (simp add: new_PonyfillBody_def text_body_def Let_def)
  have p1: "JSON_parse test_platform (ascii ''null'') = Some ()"
    by (simp add: test_platform_def)
  have t2: "fst (text_body
           (projr (new_PonyfillBody test_platform (JString (ascii ''{not json'')) no_options))
           empty_heap) = Resolved (JString (ascii ''{not json''))"
    by (simp add: new_PonyfillBody_def text_body_def Let_def)
  have p2: "JSON_parse test_platform (ascii ''{not json'') = None"
    by (simp add: test_platform_def ascii_null_neq)
  show ?thesis
    using t1 p1 t2 p2
      json_routes_through_text [of test_platform
        "projr (new_PonyfillBody test_platform (JString (ascii ''null'')) no_options)" empty_heap]
      json_routes_through_text [of test_platform
        "projr (new_PonyfillBody test_platform (JString (ascii ''{not json'')) no_options)" empty_heap]
    by blast
qed

subsection \<open>A body constructed from \<^verbatim>\<open>null\<close>\<close>

text \<open>
  Claim C8. Constructing a body from \<^verbatim>\<open>null\<close> succeeds; its content length is \<^verbatim>\<open>null\<close> (so it
  is 0 or \<^verbatim>\<open>null\<close>) and its content type is \<^verbatim>\<open>null\<close>. After any calls, \<^verbatim>\<open>body\<close> is
  \<^verbatim>\<open>null\<close>, no stream is memoized, and the heap of streams is as it was: no stream has been
  produced.
\<close>

theorem null_body_has_no_stream:
  "(\<exists>this. new_PonyfillBody pf Null opts = Inr this)
   \<and> contentLength (projr (new_PonyfillBody pf Null opts)) = None
   \<and> contentType (projr (new_PonyfillBody pf Null opts)) = None
   \<and> fst (body (fst (exec_all pf cs (projr (new_PonyfillBody pf Null opts), h0)))
              (snd (exec_all pf cs (projr (new_PonyfillBody pf Null opts), h0)))) = Inr None
   \<and> generatedBody (fst (exec_all pf cs (projr (new_PonyfillBody pf Null opts), h0))) = None
   \<and> snd (exec_all pf cs (projr (new_PonyfillBody pf Null opts), h0)) = h0"
proof -
  define this0 where "this0 = projr (new_PonyfillBody pf Null opts)"
  define w where "w = exec_all pf cs (this0, h0)"
  have n0: "null_like this0"
    by (simp add: this0_def new_null_body null_like_def)
  have nw: "null_like (fst w) \<and> snd w = h0"
    using exec_all_null_like [of "(this0, h0)" pf cs] n0 by (simp add: w_def)
  have b: "fst (body (fst w) (snd w)) = Inr None"
    using nw by (simp add: body_def generateBody_null_like)
  have g: "generatedBody (fst w) = None"
    using nw by (simp add: null_like_def)
  have c: "contentLength this0 = None \<and> contentType this0 = None"
    by (simp add: this0_def new_null_body)
  have e: "\<exists>this. new_PonyfillBody pf Null opts = Inr this"
    by (simp add: new_null_body)
  show ?thesis using e c b g nw unfolding this0_def w_def by simp
qed

theorem null_body_has_no_stream_witness:
  "contentLength (projr (new_PonyfillBody test_platform Null no_options)) = None
   \<and> contentType (projr (new_PonyfillBody test_platform Null no_options)) = None
   \<and> fst (body (fst (exec_all test_platform [Call_text, Call_blob]
                      (projr (new_PonyfillBody test_platform Null no_options), empty_heap)))
              (snd (exec_all test_platform [Call_text, Call_blob]
                      (projr (new_PonyfillBody test_platform Null no_options), empty_heap)))) = Inr None
   \<and> snd (exec_all test_platform [Call_text, Call_blob]
           (projr (new_PonyfillBody test_platform Null no_options), empty_heap)) = empty_heap"
  using null_body_has_no_stream [of test_platform no_options "[Call_text, Call_blob]" empty_heap]
  by blast

subsection \<open>Values that are no body\<close>

text \<open>
  Claim C9, as amended. Constructing a body fails with the error \<^verbatim>\<open>Unknown body type\<close>
  exactly for an object that passes none of the tests of the classifier, and with a
  \<^verbatim>\<open>TypeError\<close> exactly for a primitive that is no string; every other value constructs, so
  every supported variant does. The error is thrown by \<^verbatim>\<open>processBodyInit\<close>, during
  construction.
\<close>

theorem unknown_body_type:
  "(new_PonyfillBody pf init opts = Inl UnknownBodyType) = passes_no_test init
   \<and> (new_PonyfillBody pf init opts = Inl TypeError) = (init = JPrimitive)
   \<and> (\<exists>this. new_PonyfillBody pf init opts = Inr this)
       = (\<not> passes_no_test init \<and> init \<noteq> JPrimitive)
   \<and> (supported_variant init \<longrightarrow> (\<exists>this. new_PonyfillBody pf init opts = Inr this))"
  by (cases init) (auto simp add: new_PonyfillBody_def Let_def)

theorem unknown_body_type_witness:
  "new_PonyfillBody test_platform (JObject plain_object) no_options = Inl UnknownBodyType
   \<and> supported_variant (JBuffer [0x68])
   \<and> (\<exists>this. new_PonyfillBody test_platform (JBuffer [0x68]) no_options = Inr this)"
  using unknown_body_type [of test_platform "JObject plain_object" no_options]
    unknown_body_type [of test_platform "JBuffer [0x68]" no_options]
  by (simp add: plain_object_def forEach_object_def)

text \<open>
  The object \<^verbatim>\<open>{forEach: 0}\<close> is none of the supported variants, and a body is constructed
  from it, with a multipart content type. A number is none of them either, and constructing
  a body from it fails with a \<^verbatim>\<open>TypeError\<close>, not with \<^verbatim>\<open>Unknown body type\<close>.
\<close>

theorem unsupported_values_counterexample:
  "\<not> supported_variant (JObject forEach_object)
   \<and> new_PonyfillBody test_platform (JObject forEach_object) no_options \<noteq> Inl UnknownBodyType
   \<and> contentType (projr (new_PonyfillBody test_platform (JObject forEach_object) no_options))
       = Some (ascii ''multipart/form-data; boundary='' @ ascii ''token'')
   \<and> \<not> supported_variant JPrimitive
   \<and> new_PonyfillBody test_platform JPrimitive no_options = Inl TypeError"
  by (simp add: new_PonyfillBody_def forEach_object_def test_platform_def Let_def)

subsection \<open>Form data of a body constructed from \<^verbatim>\<open>null\<close>\<close>

text \<open>
  Claim C10. On a body constructed from \<^verbatim>\<open>null\<close>, after any calls, \<^verbatim>\<open>formData()\<close> resolves
  with an empty collection and leaves the heap of streams as it was. This holds with any
  limits and on any platform \<open>pf'\<close>, whatever its decoder would do: the decoder is not
  asked.
\<close>

theorem null_body_formData_is_empty:
  "fst (formData pf' lim (fst (exec_all pf cs (projr (new_PonyfillBody pf Null opts), h0)))
                         (snd (exec_all pf cs (projr (new_PonyfillBody pf Null opts), h0))))
     = Resolved (JFormData [])
   \<and> snd (snd (formData pf' lim (fst (exec_all pf cs (projr (new_PonyfillBody pf Null opts), h0)))
                         (snd (exec_all pf cs (projr (new_PonyfillBody pf Null opts), h0))))) = h0"
proof -
  define this0 where "this0 = projr (new_PonyfillBody pf Null opts)"
  define w where "w = exec_all pf cs (this0, h0)"
  have n0: "null_like this0"
    by (simp add: this0_def new_null_body null_like_def)
  have nw: "null_like (fst w) \<and> snd w = h0"
    using exec_all_null_like [of "(this0, h0)" pf cs] n0 by (simp add: w_def)
  have "formData pf' lim (fst w) (snd w) =
      (Resolved (JFormData []), (fst w)\<lparr>factoryCalls := Suc (factoryCalls (fst w))\<rparr>, h0)"
    using nw by (simp add: formData_def generateBody_null_like null_like_def)
  then show ?thesis unfolding this0_def w_def by simp
qed

theorem null_body_formData_is_empty_witness:
  "fst (formData fields_platform (Some name_limit)
          (fst (exec_all test_platform [Call_buffer]
                  (projr (new_PonyfillBody test_platform Null no_options), empty_heap)))
          (snd (exec_all test_platform [Call_buffer]
                  (projr (new_PonyfillBody test_platform Null no_options), empty_heap))))
     = Resolved (JFormData [])"
  using null_body_formData_is_empty [of fields_platform "Some name_limit" test_platform
      "[Call_buffer]" no_options empty_heap]
  by simp

end
